theory Spec2Isabelle
  imports Complex_Main "HOL-Library.Log_Nat"
begin

section \<open>JavaScript values of the knowledge-test routes\<close>

text \<open>
  The route handlers of \<^verbatim>\<open>routes/knowledgeTests.js\<close> work on values that come out of
  \<^verbatim>\<open>JSON.parse\<close>: the request body (parsed by \<^verbatim>\<open>express.json\<close>), the stored file
  and the generator's response. A number is modelled by the exact rational value of the
  double it was parsed to (\<^verbatim>\<open>-0\<close> and \<^verbatim>\<open>0\<close> coincide, as they do under \<^verbatim>\<open>===\<close>); literals
  that overflow the double range are not modelled. A string is a list of code units
  below 256. An object is its list of own properties, read first match first.
  \<^verbatim>\<open>undefined\<close> is not a JSON value: a JavaScript value that may be undefined is a
  \<open>json option\<close>, with \<open>None\<close> for \<^verbatim>\<open>undefined\<close>.
\<close>

datatype json =
    JNull
  | JBool bool
  | JNum rat
  | JStr string
  | JArr "json list"
  | JObj "(string \<times> json) list"

type_synonym jsval = "json option"

text \<open>An HTTP error response: the status code and the \<^verbatim>\<open>error\<close> message of its body.\<close>

type_synonym http_error = "nat \<times> string"

text \<open>ToBoolean, as \<^verbatim>\<open>!x\<close>, \<^verbatim>\<open>x || y\<close> and \<^verbatim>\<open>if (x)\<close> apply it.\<close>

fun truthy :: "jsval \<Rightarrow> bool" where
  "truthy None = False"
| "truthy (Some JNull) = False"
| "truthy (Some (JBool b)) = b"
| "truthy (Some (JNum n)) = (n \<noteq> 0)"
| "truthy (Some (JStr s)) = (s \<noteq> [])"
| "truthy (Some (JArr xs)) = True"
| "truthy (Some (JObj kvs)) = True"

text \<open>\<^verbatim>\<open>a || b\<close>.\<close>

definition js_or :: "jsval \<Rightarrow> jsval \<Rightarrow> jsval" where
  "js_or a b = (if truthy a then a else b)"

text \<open>
  \<^verbatim>\<open>v.k\<close> for the property names the handlers read (\<^verbatim>\<open>qId\<close>, \<^verbatim>\<open>selectedIndex\<close>, \<^verbatim>\<open>id\<close>,
  \<^verbatim>\<open>prompt\<close>, \<^verbatim>\<open>question\<close>, \<^verbatim>\<open>choices\<close>, \<^verbatim>\<open>options\<close>, \<^verbatim>\<open>correctIndex\<close>, \<^verbatim>\<open>answers\<close>, \<^verbatim>\<open>userId\<close>,
  \<^verbatim>\<open>questions\<close>, \<^verbatim>\<open>justifications\<close>, ...) on a value that is not \<^verbatim>\<open>null\<close>. None of these
  names is a property of a built-in prototype, so the result is the own property of an
  object and \<^verbatim>\<open>undefined\<close> on everything else. On \<^verbatim>\<open>null\<close> the read throws a TypeError;
  the callers test for \<open>JNull\<close> before they use \<open>field\<close>.
\<close>

definition field :: "json \<Rightarrow> string \<Rightarrow> jsval" where
  "field v k = (case v of JObj kvs \<Rightarrow> map_of kvs k | _ \<Rightarrow> None)"

text \<open>Decimal digits of a natural number: the canonical form of an array index key.\<close>

fun dec :: "nat \<Rightarrow> string" where
  "dec n = (if n < 10 then [''0123456789'' ! n]
            else dec (n div 10) @ [''0123456789'' ! (n mod 10)])"

declare dec.simps [simp del]

text \<open>\<^verbatim>\<open>Array.prototype.join\<close> with the default separator, on the converted elements.\<close>

fun join_comma :: "string list \<Rightarrow> string" where
  "join_comma [] = []"
| "join_comma [s] = s"
| "join_comma (s # t # ts) = s @ '','' @ join_comma (t # ts)"

text \<open>
  ToString of a JSON value, as \<^verbatim>\<open>String(v)\<close>, a template literal and a computed property
  key \<^verbatim>\<open>obj[v]\<close> apply it; \<open>None\<close> is a thrown TypeError. \<open>ns\<close> is the engine's
  Number-to-string conversion, which is not part of the repository. A parsed object
  converts through \<^verbatim>\<open>Object.prototype.toString\<close> unless it has an own property
  \<^verbatim>\<open>toString\<close>: that one is a JSON value and not callable, \<^verbatim>\<open>valueOf\<close> then yields no
  primitive either, and the conversion throws. An array converts through \<^verbatim>\<open>join\<close>,
  where \<^verbatim>\<open>null\<close> elements give the empty string.
\<close>

fun to_string :: "(rat \<Rightarrow> string) \<Rightarrow> json \<Rightarrow> string option" where
  "to_string ns JNull = Some ''null''"
| "to_string ns (JBool b) = Some (if b then ''true'' else ''false'')"
| "to_string ns (JNum n) = Some (ns n)"
| "to_string ns (JStr s) = Some s"
| "to_string ns (JObj kvs) =
     (if map_of kvs ''toString'' = None then Some ''[object Object]'' else None)"
| "to_string ns (JArr xs) =
     (let parts = map (\<lambda>x. if x = JNull then Some [] else to_string ns x) xs
      in if None \<in> set parts then None else Some (join_comma (map the parts)))"

text \<open>ToPropertyKey of a value that may be \<^verbatim>\<open>undefined\<close>.\<close>

definition to_key :: "(rat \<Rightarrow> string) \<Rightarrow> jsval \<Rightarrow> string option" where
  "to_key ns v = (case v of None \<Rightarrow> Some ''undefined'' | Some j \<Rightarrow> to_string ns j)"

text \<open>\<^verbatim>\<open>req.body || {}\<close>.\<close>

definition body_or_empty :: "json \<Rightarrow> json" where
  "body_or_empty body = (if truthy (Some body) then body else JObj [])"

text \<open>The default of a destructured property, \<^verbatim>\<open>{ k = d }\<close>: used when the property is \<^verbatim>\<open>undefined\<close>.\<close>

definition with_default :: "jsval \<Rightarrow> json \<Rightarrow> json" where
  "with_default v d = (case v of None \<Rightarrow> d | Some j \<Rightarrow> j)"

text \<open>\<^verbatim>\<open>typeof v === "number" ? v : d\<close>.\<close>

definition number_or :: "jsval \<Rightarrow> rat \<Rightarrow> rat" where
  "number_or v d = (case v of Some (JNum n) \<Rightarrow> n | _ \<Rightarrow> d)"

section \<open>The accumulator object of the submit handler\<close>

text \<open>
  Line 180 folds the answers into \<^verbatim>\<open>{}\<close>, an ordinary object whose prototype is
  \<^verbatim>\<open>Object.prototype\<close>, with \<^verbatim>\<open>acc[a.qId] = a.selectedIndex\<close>. The object is modelled by
  its own properties and its prototype. The prototype can change: \<^verbatim>\<open>Object.prototype\<close>
  has the accessor property \<^verbatim>\<open>__proto__\<close>, whose setter replaces the receiver's prototype
  when the assigned value is an object or \<^verbatim>\<open>null\<close> and does nothing otherwise. Every
  other inherited property is a writable data property, so every other assignment
  creates or overwrites an own property.
\<close>

datatype prototype =
    ObjectPrototype
  | NullProto
  | ObjProto "(string \<times> json) list"
  | ArrProto "json list"

record jsobject =
  own :: "string \<Rightarrow> jsval option"
  proto :: prototype

definition empty_object :: jsobject where
  "empty_object = \<lparr>own = (\<lambda>k. None), proto = ObjectPrototype\<rparr>"

text \<open>The setter of \<^verbatim>\<open>Object.prototype.__proto__\<close>.\<close>

definition proto_setter :: "jsobject \<Rightarrow> jsval \<Rightarrow> jsobject" where
  "proto_setter obj v =
     (case v of
        Some (JObj kvs) \<Rightarrow> obj\<lparr>proto := ObjProto kvs\<rparr>
      | Some (JArr xs) \<Rightarrow> obj\<lparr>proto := ArrProto xs\<rparr>
      | Some JNull \<Rightarrow> obj\<lparr>proto := NullProto\<rparr>
      | _ \<Rightarrow> obj)"

text \<open>
  Whether an assignment to the key \<^verbatim>\<open>__proto__\<close> ends in that setter: the object has no own
  property of the name, and neither has a parsed object on its prototype chain (a parsed
  object can: \<^verbatim>\<open>JSON.parse\<close> defines \<^verbatim>\<open>__proto__\<close> as an own data property).
\<close>

definition reaches_proto_setter :: "jsobject \<Rightarrow> bool" where
  "reaches_proto_setter obj =
     (own obj ''__proto__'' = None \<and>
      (case proto obj of
         ObjectPrototype \<Rightarrow> True
       | NullProto \<Rightarrow> False
       | ObjProto kvs \<Rightarrow> map_of kvs ''__proto__'' = None
       | ArrProto xs \<Rightarrow> True))"

text \<open>\<^verbatim>\<open>obj[k] = v\<close>.\<close>

definition set_prop :: "jsobject \<Rightarrow> string \<Rightarrow> jsval \<Rightarrow> jsobject" where
  "set_prop obj k v =
     (if k = ''__proto__'' \<and> reaches_proto_setter obj then proto_setter obj v
      else obj\<lparr>own := (own obj)(k \<mapsto> v)\<rparr>)"

text \<open>The own properties of a parsed array: \<^verbatim>\<open>length\<close> and the indices.\<close>

definition array_own :: "json list \<Rightarrow> string \<Rightarrow> jsval" where
  "array_own xs k =
     (if k = ''length'' then Some (JNum (of_nat (length xs)))
      else case find (\<lambda>i. dec i = k) [0..<length xs] of
             Some i \<Rightarrow> Some (xs ! i)
           | None \<Rightarrow> None)"

text \<open>
  \<^verbatim>\<open>obj[k]\<close>, as far as \<^verbatim>\<open>typeof obj[k] === "number"\<close> can tell: the result is the JSON
  value found as an own property of the object or of the parsed object or array that is
  its prototype. Where the lookup goes on to \<^verbatim>\<open>Object.prototype\<close> or \<^verbatim>\<open>Array.prototype\<close> it
  finds \<^verbatim>\<open>undefined\<close>, a built-in function or (through the \<^verbatim>\<open>__proto__\<close> getter) an object
  or \<^verbatim>\<open>null\<close>, never a number (\<^verbatim>\<open>Array.prototype.length\<close> is hidden by the array's own
  \<^verbatim>\<open>length\<close>); all of these are \<open>None\<close> here.
\<close>

definition get_prop :: "jsobject \<Rightarrow> string \<Rightarrow> jsval" where
  "get_prop obj k =
     (case own obj k of
        Some v \<Rightarrow> v
      | None \<Rightarrow>
          (case proto obj of
             ObjectPrototype \<Rightarrow> None
           | NullProto \<Rightarrow> None
           | ObjProto kvs \<Rightarrow> map_of kvs k
           | ArrProto xs \<Rightarrow> array_own xs k))"

section \<open>Floating-point score\<close>

text \<open>
  JavaScript numbers are IEEE 754 doubles. \<open>fl\<close> rounds a rational to the nearest number
  with a 53-bit significand, ties to even; the exponent range plays no role, since the
  values of line 196 lie between \<open>2 powi (-32)\<close> and 100. \<^verbatim>\<open>Math.round\<close> returns the nearest
  integer, ties towards \<open>+\<infinity>\<close>.
\<close>

definition round_half_even :: "rat \<Rightarrow> int" where
  "round_half_even t =
     (let f = \<lfloor>t\<rfloor>; r = t - of_int f
      in if r < 1/2 then f else if 1/2 < r then f + 1 else if even f then f else f + 1)"

text \<open>The binary exponent \<open>e\<close> of a non-zero rational: \<open>2 powi e \<le> \<bar>x\<bar> < 2 powi (e + 1)\<close>.\<close>

definition expo :: "rat \<Rightarrow> int" where
  "expo x =
     (let (a, b) = quotient_of \<bar>x\<bar>; d = bitlen a - bitlen b
      in if 2 powi d \<le> \<bar>x\<bar> then d else d - 1)"

definition fl :: "rat \<Rightarrow> rat" where
  "fl x = (if x = 0 then 0
           else let u = 2 powi (expo x - 52)
                in sgn x * of_int (round_half_even (\<bar>x\<bar> / u)) * u)"

definition math_round :: "rat \<Rightarrow> int" where
  "math_round x = \<lfloor>x + 1/2\<rfloor>"

text \<open>Line 196: \<^verbatim>\<open>Math.round((correctCount / Math.max(1, questions.length)) * 100)\<close>.\<close>

definition compute_score :: "nat \<Rightarrow> nat \<Rightarrow> int" where
  "compute_score correctCount questionCount =
     math_round (fl (fl (of_nat correctCount / of_nat (max 1 questionCount)) * 100))"

section \<open>Submit: grade and store\<close>

text \<open>
  The entry of a submission's \<^verbatim>\<open>answers\<close> (lines 186 to 192) and the submission (lines 198 to
  204), whose \<^verbatim>\<open>id\<close> is the field \<open>sid\<close> here. \<open>qId\<close> and \<open>prompt\<close> are copied from the question
  and may be \<^verbatim>\<open>undefined\<close>.
\<close>

record result_answer =
  qId :: jsval
  prompt :: jsval
  selectedIndex :: rat
  correctIndex :: rat
  correct :: bool

record submission =
  sid :: string
  userId :: json
  timestamp :: string
  score :: int
  answers :: "result_answer list"

text \<open>
  A stored test. The file \<^verbatim>\<open>knowledge_tests.json\<close> is modelled by the list of its tests:
  \<^verbatim>\<open>readFile\<close> reads the list and \<^verbatim>\<open>writeFile\<close> replaces it; a failing file system is not
  modelled. The id of a test is the string the create handler built, so the comparison
  \<^verbatim>\<open>String(t.id) === String(id)\<close> of the handlers is equality of strings. \<open>questions\<close> is the
  JSON value read back from the file; the handlers guard it themselves
  (\<^verbatim>\<open>test.questions || []\<close>, \<^verbatim>\<open>typeof q.correctIndex\<close>).
\<close>

record test =
  test_id :: string
  name :: json
  createdAt :: string
  sourceText :: json
  questions :: json
  results :: "submission list"

text \<open>
  Line 180, \<^verbatim>\<open>answers.reduce((acc, a) => { acc[a.qId] = a.selectedIndex; return acc; }, {})\<close>.
  \<open>None\<close> is a thrown TypeError: an element that is \<^verbatim>\<open>null\<close>, or a \<^verbatim>\<open>qId\<close> that has no
  string conversion.
\<close>

fun build_answers_map :: "(rat \<Rightarrow> string) \<Rightarrow> jsobject \<Rightarrow> json list \<Rightarrow> jsobject option" where
  "build_answers_map ns acc [] = Some acc"
| "build_answers_map ns acc (a # as) =
     (if a = JNull then None
      else case to_key ns (field a ''qId'') of
             None \<Rightarrow> None
           | Some k \<Rightarrow> build_answers_map ns (set_prop acc k (field a ''selectedIndex'')) as)"

text \<open>Lines 182 to 193, the callback of \<^verbatim>\<open>questions.map\<close>.\<close>

definition grade_question :: "(rat \<Rightarrow> string) \<Rightarrow> jsobject \<Rightarrow> json \<Rightarrow> result_answer option" where
  "grade_question ns answersMap q =
     (if q = JNull then None
      else case to_key ns (field q ''id'') of
             None \<Rightarrow> None
           | Some k \<Rightarrow>
               let selected = number_or (get_prop answersMap k) (- 1);
                   ci = number_or (field q ''correctIndex'') 0
               in Some \<lparr>qId = field q ''id'', prompt = field q ''prompt'',
                         selectedIndex = selected, correctIndex = ci,
                         correct = (selected = ci)\<rparr>)"

fun grade_all :: "(rat \<Rightarrow> string) \<Rightarrow> jsobject \<Rightarrow> json list \<Rightarrow> result_answer list option" where
  "grade_all ns answersMap [] = Some []"
| "grade_all ns answersMap (q # qs) =
     (case grade_question ns answersMap q of
        None \<Rightarrow> None
      | Some r \<Rightarrow>
          (case grade_all ns answersMap qs of
             None \<Rightarrow> None
           | Some rs \<Rightarrow> Some (r # rs)))"

text \<open>
  Lines 179 to 196: grading a stored \<^verbatim>\<open>test.questions\<close> against the \<^verbatim>\<open>answers\<close> of the
  body. \<^verbatim>\<open>reduce\<close> and \<^verbatim>\<open>map\<close> exist on arrays only; on any other value that is not falsy
  the call throws.
\<close>

definition grade :: "(rat \<Rightarrow> string) \<Rightarrow> json \<Rightarrow> json \<Rightarrow> (result_answer list \<times> int) option" where
  "grade ns test_questions answers_in =
     (case js_or (Some test_questions) (Some (JArr [])) of
        Some (JArr qs) \<Rightarrow>
          (case js_or (Some answers_in) (Some (JArr [])) of
             Some (JArr as) \<Rightarrow>
               (case build_answers_map ns empty_object as of
                  None \<Rightarrow> None
                | Some answersMap \<Rightarrow>
                    (case grade_all ns answersMap qs of
                       None \<Rightarrow> None
                     | Some resultAnswers \<Rightarrow>
                         Some (resultAnswers,
                               compute_score (length (filter correct resultAnswers)) (length qs))))
           | _ \<Rightarrow> None)
      | _ \<Rightarrow> None)"

text \<open>\<^verbatim>\<open>test.results.push(submission)\<close> on the test that \<^verbatim>\<open>find\<close> returned: the first match.\<close>

fun push_result :: "string \<Rightarrow> submission \<Rightarrow> test list \<Rightarrow> test list" where
  "push_result tid s [] = []"
| "push_result tid s (t # ts) =
     (if test_id t = tid then t\<lparr>results := results t @ [s]\<rparr> # ts
      else t # push_result tid s ts)"

text \<open>
  The handler of \<^verbatim>\<open>POST /:id/submit\<close> (lines 170 to 215). \<open>new_id\<close> and \<open>now\<close> are the
  submission id and the timestamp, which the code draws from the clock and the random
  generator. The result is the response and the stored tests after the request; an error
  response leaves the store as it was.
\<close>

definition submit_handler ::
  "(rat \<Rightarrow> string) \<Rightarrow> string \<Rightarrow> string \<Rightarrow> test list \<Rightarrow> string \<Rightarrow> json
     \<Rightarrow> (http_error + submission \<times> int) \<times> test list" where
  "submit_handler ns new_id now tests tid body =
     (let b = body_or_empty body;
          user = with_default (field b ''userId'') JNull;
          answers_in = with_default (field b ''answers'') (JArr [])
      in case find (\<lambda>t. test_id t = tid) tests of
           None \<Rightarrow> (Inl (404, ''Test not found''), tests)
         | Some t \<Rightarrow>
             (case grade ns (questions t) answers_in of
                None \<Rightarrow> (Inl (500, ''Could not submit answers''), tests)
              | Some (resultAnswers, sc) \<Rightarrow>
                  let s = \<lparr>sid = new_id, userId = user, timestamp = now,
                           score = sc, answers = resultAnswers\<rparr>
                  in (Inr (s, sc), push_result tid s tests)))"

section \<open>The defensive parser of the generator's response\<close>

text \<open>
  What the handlers take from outside the repository: the engine's Number-to-string
  conversion, \<^verbatim>\<open>JSON.parse\<close> (\<open>None\<close> when it throws), \<^verbatim>\<open>JSON.stringify\<close>, the HTTP call of
  \<^verbatim>\<open>callGeminiGenerate\<close> (the prompt and \<^verbatim>\<open>maxOutputTokens\<close> to the response's \<^verbatim>\<open>data\<close>,
  \<open>None\<close> when it throws), and \<^verbatim>\<open>Date.now().toString(36)\<close> at the normalisation of the
  \<open>i\<close>-th question.
\<close>

record runtime =
  number_to_string :: "rat \<Rightarrow> string"
  json_parse :: "string \<Rightarrow> json option"
  json_stringify :: "json \<Rightarrow> string"
  call_gemini :: "string \<Rightarrow> nat \<Rightarrow> json option"
  time36 :: "nat \<Rightarrow> string"

definition backtick :: char where
  "backtick = CHR 0x60"

text \<open>If \<open>s\<close> starts with \<open>p\<close>, \<open>s\<close> without it: an optional group of a regular expression.\<close>

definition opt_prefix :: "string \<Rightarrow> string \<Rightarrow> string" where
  "opt_prefix p s = (if take (length p) s = p then drop (length p) s else s)"

text \<open>
  Line 38, first \<^verbatim>\<open>replace\<close>: every match of three backticks, an optional \<^verbatim>\<open>json\<close> and an
  optional newline is removed, scanning from the left.
\<close>

function (sequential) remove_json_fences :: "string \<Rightarrow> string" where
  "remove_json_fences (a # b # c # rest) =
     (if a = backtick \<and> b = backtick \<and> c = backtick
      then remove_json_fences (opt_prefix ''\<newline>'' (opt_prefix ''json'' rest))
      else a # remove_json_fences (b # c # rest))"
| "remove_json_fences s = s"
  by pat_completeness auto
termination
proof (relation "measure length")
  fix a b c :: char and rest :: string
  have "length (opt_prefix ''\<newline>'' (opt_prefix ''json'' rest)) \<le> length rest"
    by (simp add: opt_prefix_def)
  then show "(opt_prefix ''\<newline>'' (opt_prefix ''json'' rest), a # b # c # rest) \<in> measure length"
    by simp
qed simp_all

text \<open>Line 38, second \<^verbatim>\<open>replace\<close>: every remaining match of three backticks is removed.\<close>

fun remove_fences :: "string \<Rightarrow> string" where
  "remove_fences (a # b # c # rest) =
     (if a = backtick \<and> b = backtick \<and> c = backtick
      then remove_fences rest
      else a # remove_fences (b # c # rest))"
| "remove_fences s = s"

text \<open>\<^verbatim>\<open>String.prototype.trim\<close>, on the white space and line terminators below 256.\<close>

definition is_space :: "char \<Rightarrow> bool" where
  "is_space c =
     (c \<in> set [CHR 0x09, CHR 0x0A, CHR 0x0B, CHR 0x0C, CHR 0x0D, CHR 0x20, CHR 0xA0])"

definition trim :: "string \<Rightarrow> string" where
  "trim s = rev (dropWhile is_space (rev (dropWhile is_space s)))"

text \<open>\<^verbatim>\<open>search\<close> and \<^verbatim>\<open>lastIndexOf\<close>: the first and the last index of a match, or \<open>-1\<close>.\<close>

fun first_index :: "('a \<Rightarrow> bool) \<Rightarrow> 'a list \<Rightarrow> int" where
  "first_index P [] = - 1"
| "first_index P (x # xs) =
     (if P x then 0 else let i = first_index P xs in if i < 0 then - 1 else i + 1)"

fun last_index :: "('a \<Rightarrow> bool) \<Rightarrow> 'a list \<Rightarrow> int" where
  "last_index P [] = - 1"
| "last_index P (x # xs) =
     (let i = last_index P xs in if 0 \<le> i then i + 1 else if P x then 0 else - 1)"

definition is_open :: "char \<Rightarrow> bool" where
  "is_open c = (c = CHR ''{'' \<or> c = CHR ''['')"


text \<open>Line 38: both replacements and \<^verbatim>\<open>trim\<close>.\<close>

definition clean_text :: "string \<Rightarrow> string" where
  "clean_text s = trim (remove_fences (remove_json_fences s))"

text \<open>
  Lines 40 to 44: from the first \<^verbatim>\<open>{\<close> or \<^verbatim>\<open>[\<close>, if there is one, up to the later of the last
  \<^verbatim>\<open>}\<close> and the last \<^verbatim>\<open>]\<close>, if there is one (\<^verbatim>\<open>Math.max\<close> of the two \<^verbatim>\<open>lastIndexOf\<close>).
\<close>

definition extract_brackets :: "string \<Rightarrow> string" where
  "extract_brackets t0 =
     (let first = first_index is_open t0;
          t1 = (if 0 \<le> first then drop (nat first) t0 else t0);
          lastBrace = max (last_index (\<lambda>c. c = CHR ''}'') t1) (last_index (\<lambda>c. c = CHR '']'') t1)
      in if 0 \<le> lastBrace then take (nat (lastBrace + 1)) t1 else t1)"

text \<open>Lines 38 to 44: the text that is handed to \<^verbatim>\<open>JSON.parse\<close>.\<close>

definition json_candidate :: "string \<Rightarrow> string" where
  "json_candidate s = extract_brackets (clean_text s)"

text \<open>
  \<^verbatim>\<open>safelyParseJsonFromText\<close> (lines 35 to 51). The result \<open>Some JNull\<close> is the \<^verbatim>\<open>null\<close> the
  function returns for a falsy text and for a text that \<^verbatim>\<open>JSON.parse\<close> rejects; \<open>None\<close> is
  the TypeError of \<^verbatim>\<open>String(text)\<close> on a text without a string conversion, which the
  function does not catch.
\<close>

definition safelyParseJsonFromText :: "runtime \<Rightarrow> jsval \<Rightarrow> json option" where
  "safelyParseJsonFromText rt text =
     (case text of
        None \<Rightarrow> Some JNull
      | Some j \<Rightarrow>
          if \<not> truthy (Some j) then Some JNull
          else case to_string (number_to_string rt) j of
                 None \<Rightarrow> None
               | Some s \<Rightarrow>
                   (case json_parse rt (json_candidate s) of
                      None \<Rightarrow> Some JNull
                    | Some v \<Rightarrow> Some v))"

section \<open>Create: generate, normalise and store\<close>

text \<open>\<^verbatim>\<open>a || d\<close> where \<open>d\<close> is defined.\<close>

definition or_else :: "jsval \<Rightarrow> json \<Rightarrow> json" where
  "or_else a d = (case a of None \<Rightarrow> d | Some j \<Rightarrow> if truthy (Some j) then j else d)"

text \<open>
  Optional chaining: \<^verbatim>\<open>v?.k\<close> for the names \<^verbatim>\<open>candidates\<close>, \<^verbatim>\<open>content\<close>, \<^verbatim>\<open>parts\<close>, \<^verbatim>\<open>text\<close> and
  \<^verbatim>\<open>output\<close>, and \<^verbatim>\<open>v?.[0]\<close>, which reads the first element of an array, the first code unit
  of a string and the own property \<^verbatim>\<open>0\<close> of an object.
\<close>

definition chain :: "jsval \<Rightarrow> string \<Rightarrow> jsval" where
  "chain v k = (case v of None \<Rightarrow> None | Some j \<Rightarrow> field j k)"

definition chain0 :: "jsval \<Rightarrow> jsval" where
  "chain0 v =
     (case v of
        Some (JArr xs) \<Rightarrow> (case xs of [] \<Rightarrow> None | x # _ \<Rightarrow> Some x)
      | Some (JStr s) \<Rightarrow> (case s of [] \<Rightarrow> None | c # _ \<Rightarrow> Some (JStr [c]))
      | Some (JObj kvs) \<Rightarrow> map_of kvs ''0''
      | _ \<Rightarrow> None)"

text \<open>
  \<^verbatim>\<open>modelResp?.candidates?.[0]?.content?.parts?.[0]?.text\<close> and
  \<^verbatim>\<open>modelResp?.output?.[0]?.content?.[0]?.text\<close> (lines 114, 115, 252 and 253).
\<close>

definition candidate_text :: "json \<Rightarrow> jsval" where
  "candidate_text modelResp =
     chain (chain0 (chain (chain (chain0 (chain (Some modelResp) ''candidates'')) ''content'') ''parts'')) ''text''"

definition output_text :: "json \<Rightarrow> jsval" where
  "output_text modelResp =
     chain (chain0 (chain (chain0 (chain (Some modelResp) ''output'')) ''content'')) ''text''"

text \<open>Lines 92 to 102, the prompt of the create handler, with both values converted.\<close>

definition mcq_prompt :: "string \<Rightarrow> string \<Rightarrow> string" where
  "mcq_prompt requested text =
     ''\<newline>You are an expert teacher. Given the following passage, generate '' @ requested @
     '' multiple-choice questions (MCQs).\<newline>Requirements:\<newline>'' @
     ''- Output ONLY valid JSON (no extra commentary).\<newline>'' @
     ''- JSON structure must be: { \"questions\": [ { \"prompt\": \"...\", \"choices\": [\"A\", \"B\", \"C\", \"D\"], \"correctIndex\": 1, \"id\": \"q1\" }, ... ] }\<newline>'' @
     ''- Each question should be concise, 4 choices, exactly one correct.\<newline>'' @
     ''- Keep language simple for learners.\<newline>Passage:\<newline>\"\"\"'' @ text @
     ''\"\"\"\<newline>Return the JSON only.\<newline>''"

text \<open>
  Lines 125 to 130, the callback of \<^verbatim>\<open>parsed.questions.map\<close> on the \<open>i\<close>-th candidate. \<open>None\<close>
  is the TypeError of reading a property of \<^verbatim>\<open>null\<close>.
\<close>

definition normalize_question :: "runtime \<Rightarrow> nat \<Rightarrow> json \<Rightarrow> json option" where
  "normalize_question rt i q =
     (if q = JNull then None
      else Some (JObj
        [(''id'', or_else (field q ''id'') (JStr (''q_'' @ time36 rt i @ ''_'' @ dec i))),
         (''prompt'', or_else (field q ''prompt'') (or_else (field q ''question'') (JStr []))),
         (''choices'', or_else (field q ''choices'') (or_else (field q ''options'') (JArr []))),
         (''correctIndex'', JNum (number_or (field q ''correctIndex'') 0))]))"

fun normalize_from :: "runtime \<Rightarrow> nat \<Rightarrow> json list \<Rightarrow> json list option" where
  "normalize_from rt i [] = Some []"
| "normalize_from rt i (q # qs) =
     (case normalize_question rt i q of
        None \<Rightarrow> None
      | Some n \<Rightarrow>
          (case normalize_from rt (Suc i) qs of
             None \<Rightarrow> None
           | Some ns \<Rightarrow> Some (n # ns)))"

text \<open>The body of the 201 response, and an entry of the list route.\<close>

record test_meta =
  meta_id :: string
  meta_name :: json
  meta_createdAt :: string
  questionCount :: nat

text \<open>
  Lines 113 to 116: the text of the response. A response that is a string is taken as it is.
\<close>

definition raw_output :: "runtime \<Rightarrow> json \<Rightarrow> jsval" where
  "raw_output rt modelResp =
     js_or (candidate_text modelResp)
       (js_or (output_text modelResp)
          (Some (JStr (case modelResp of JStr s \<Rightarrow> s | _ \<Rightarrow> json_stringify rt modelResp))))"

text \<open>
  Lines 113 to 148 of the create handler: from the generator's response to the stored test.
  \<open>nm\<close> and \<open>txt\<close> are the \<^verbatim>\<open>name\<close> and \<^verbatim>\<open>text\<close> of the request, \<open>new_id\<close> and \<open>now\<close> the test id
  and the creation time. The result is the response and the stored tests after the request.
  The test appended is the object of lines 136 to 143 as \<^verbatim>\<open>writeFile\<close> writes it (line 32,
  \<^verbatim>\<open>JSON.stringify\<close>) and a later \<^verbatim>\<open>readFile\<close> parses it: on the values modelled here, whose
  numbers are finite, the same value. (\<^verbatim>\<open>JSON.stringify\<close> writes \<^verbatim>\<open>Infinity\<close>, which is what
  \<^verbatim>\<open>JSON.parse\<close> makes of a literal beyond the double range, as \<^verbatim>\<open>null\<close>; the number of
  stored questions is not affected.)
\<close>

definition create_from_response ::
  "runtime \<Rightarrow> string \<Rightarrow> string \<Rightarrow> test list \<Rightarrow> json \<Rightarrow> json \<Rightarrow> json
     \<Rightarrow> (http_error + test_meta) \<times> test list" where
  "create_from_response rt new_id now tests nm txt modelResp =
     (case safelyParseJsonFromText rt (raw_output rt modelResp) of
        None \<Rightarrow> (Inl (500, ''Could not create test''), tests)
      | Some parsed \<Rightarrow>
          (case (if truthy (Some parsed) then field parsed ''questions'' else None) of
             Some (JArr cands) \<Rightarrow>
               (case normalize_from rt 0 cands of
                  None \<Rightarrow> (Inl (500, ''Could not create test''), tests)
                | Some qs \<Rightarrow>
                    (Inr \<lparr>meta_id = new_id, meta_name = nm, meta_createdAt = now,
                           questionCount = length qs\<rparr>,
                     tests @ [\<lparr>test_id = new_id, name = nm, createdAt = now,
                               sourceText = txt, questions = JArr qs, results = []\<rparr>]))
           | _ \<Rightarrow> (Inl (500, ''Invalid JSON output from model''), tests)))"

text \<open>
  The handler of \<^verbatim>\<open>POST /\<close> (lines 86 to 153). Every failure leaves the store as it was; the
  TypeErrors end in the handler's own \<^verbatim>\<open>catch\<close> (line 151).
\<close>

definition create_handler ::
  "runtime \<Rightarrow> string \<Rightarrow> string \<Rightarrow> test list \<Rightarrow> json \<Rightarrow> (http_error + test_meta) \<times> test list" where
  "create_handler rt new_id now tests body =
     (let b = body_or_empty body;
          requested = with_default (field b ''requested'') (JNum 6)
      in case (field b ''name'', field b ''text'') of
           (Some nm, Some txt) \<Rightarrow>
             if \<not> truthy (Some nm) \<or> \<not> truthy (Some txt)
             then (Inl (400, ''name and text required''), tests)
             else
               (case (to_string (number_to_string rt) requested, to_string (number_to_string rt) txt) of
                  (Some rs, Some ts) \<Rightarrow>
                    (case call_gemini rt (mcq_prompt rs ts) 1000 of
                       None \<Rightarrow> (Inl (500, ''MCQ generation failed''), tests)
                     | Some modelResp \<Rightarrow> create_from_response rt new_id now tests nm txt modelResp)
                | _ \<Rightarrow> (Inl (500, ''Could not create test''), tests))
         | _ \<Rightarrow> (Inl (400, ''name and text required''), tests))"

section \<open>Justify: explanations for chosen questions\<close>

text \<open>
  \<^verbatim>\<open>qIds.includes(q.id)\<close> compares with SameValueZero: primitives by type and value; an object
  or array of the stored test is never the same object as one of the request.
\<close>

definition same_value_zero :: "jsval \<Rightarrow> json \<Rightarrow> bool" where
  "same_value_zero a b =
     (case a of
        None \<Rightarrow> False
      | Some (JObj kvs) \<Rightarrow> False
      | Some (JArr xs) \<Rightarrow> False
      | Some j \<Rightarrow> j = b)"

definition includes_json :: "json list \<Rightarrow> jsval \<Rightarrow> bool" where
  "includes_json qIds v = list_ex (same_value_zero v) qIds"

text \<open>Line 228, \<^verbatim>\<open>test.questions.filter((q) => qIds.includes(q.id))\<close>.\<close>

fun select_questions :: "json list \<Rightarrow> json list \<Rightarrow> json list option" where
  "select_questions qIds [] = Some []"
| "select_questions qIds (q # qs) =
     (if q = JNull then None
      else case select_questions qIds qs of
             None \<Rightarrow> None
           | Some sel \<Rightarrow> Some (if includes_json qIds (field q ''id'') then q # sel else sel))"

text \<open>\<^verbatim>\<open>Array.prototype.join\<close> with a separator.\<close>

fun join_with :: "string \<Rightarrow> string list \<Rightarrow> string" where
  "join_with sep [] = []"
| "join_with sep [s] = s"
| "join_with sep (s # t # ts) = s @ sep @ join_with sep (t # ts)"

text \<open>Line 241, the text of one question in the prompt.\<close>

definition question_text :: "runtime \<Rightarrow> json \<Rightarrow> string option" where
  "question_text rt q =
     (case (to_key (number_to_string rt) (field q ''id''),
            to_key (number_to_string rt) (field q ''prompt''),
            to_key (number_to_string rt) (field q ''correctIndex'')) of
        (Some i, Some p, Some c) \<Rightarrow>
          Some (''QID:'' @ i @ ''\<newline>Q:'' @ p @ ''\<newline>Choices:'' @
                (case field q ''choices'' of
                   None \<Rightarrow> ''undefined''
                 | Some ch \<Rightarrow> json_stringify rt ch) @
                ''\<newline>CorrectIndex:'' @ c)
      | _ \<Rightarrow> None)"

text \<open>Lines 230 to 242, the prompt of the justify handler.\<close>

definition justify_prompt :: "runtime \<Rightarrow> json \<Rightarrow> json list \<Rightarrow> string option" where
  "justify_prompt rt contextNotes qs =
     (case to_string (number_to_string rt) contextNotes of
        None \<Rightarrow> None
      | Some notes \<Rightarrow>
          let texts = map (question_text rt) qs
          in if None \<in> set texts then None
             else Some (
               ''\<newline>You are StudyAgent. For each question and its correct answer given below, write a short (1-2 paragraph) child-friendly explanation why the correct answer is correct and a short tip to remember it.\<newline>'' @
               ''Return ONLY JSON:\<newline>{\<newline>  \"justifications\": [\<newline>    { \"qId\": \"...\", \"explanation\": \"...\" }\<newline>  ]\<newline>}\<newline>'' @
               ''Context (extract): '' @ notes @ ''\<newline>\<newline>Questions:\<newline>'' @
               join_with ''\<newline>\<newline>'' (map the texts) @ ''\<newline>''))"

text \<open>
  Lines 252 to 262 of the justify handler: from the generator's response to the body of the
  response, the \<^verbatim>\<open>justifications\<close> array of the parsed text.
\<close>

definition justify_from_response :: "runtime \<Rightarrow> json \<Rightarrow> http_error + json list" where
  "justify_from_response rt modelResp =
     (let raw = js_or (candidate_text modelResp)
                  (js_or (output_text modelResp) (Some (JStr (json_stringify rt modelResp))))
      in case safelyParseJsonFromText rt raw of
           None \<Rightarrow> Inl (500, ''Could not produce justifications'')
         | Some parsed \<Rightarrow>
             (case (if truthy (Some parsed) then field parsed ''justifications'' else None) of
                Some (JArr js) \<Rightarrow> Inr js
              | _ \<Rightarrow> Inl (500, ''Invalid JSON from justification model'')))"

text \<open>The handler of \<^verbatim>\<open>POST /:id/justify\<close> (lines 218 to 267). It stores nothing.\<close>

definition justify_handler :: "runtime \<Rightarrow> test list \<Rightarrow> string \<Rightarrow> json \<Rightarrow> http_error + json list" where
  "justify_handler rt tests tid body =
     (let b = body_or_empty body;
          qIds = with_default (field b ''qIds'') (JArr []);
          contextNotes = with_default (field b ''contextNotes'') (JStr [])
      in case qIds of
           JArr (i # ids) \<Rightarrow>
             (case find (\<lambda>t. test_id t = tid) tests of
                None \<Rightarrow> Inl (404, ''Test not found'')
              | Some t \<Rightarrow>
                  (case questions t of
                     JArr qs \<Rightarrow>
                       (case select_questions (i # ids) qs of
                          None \<Rightarrow> Inl (500, ''Could not produce justifications'')
                        | Some sel \<Rightarrow>
                            (case justify_prompt rt contextNotes sel of
                               None \<Rightarrow> Inl (500, ''Could not produce justifications'')
                             | Some p \<Rightarrow>
                                 (case call_gemini rt p 800 of
                                    None \<Rightarrow> Inl (500, ''Justify generation failed'')
                                  | Some modelResp \<Rightarrow> justify_from_response rt modelResp)))
                   | _ \<Rightarrow> Inl (500, ''Could not produce justifications'')))
         | _ \<Rightarrow> Inl (400, ''qIds required''))"

section \<open>Notions the properties are stated with\<close>

text \<open>
  \<^verbatim>\<open>test.questions || []\<close> as a sequence. On a value that is neither falsy nor an array the
  handlers throw and there is no submission, so the value given here is never used.
\<close>

definition question_list :: "test \<Rightarrow> json list" where
  "question_list t = (case questions t of JArr qs \<Rightarrow> qs | _ \<Rightarrow> [])"

text \<open>The entries of the \<^verbatim>\<open>answers\<close> of a submit request, as line 180 folds them.\<close>

definition answer_entries :: "json \<Rightarrow> json list" where
  "answer_entries body =
     (case js_or (Some (with_default (field (body_or_empty body) ''answers'') (JArr []))) (Some (JArr [])) of
        Some (JArr as) \<Rightarrow> as
      | _ \<Rightarrow> [])"




text \<open>
  What a response says about the grading: the error, or the score of the response, the score
  of the submission and the \<^verbatim>\<open>correct\<close> flag of each question.
\<close>

definition verdict :: "(http_error + submission \<times> int) \<Rightarrow> http_error + int \<times> int \<times> bool list" where
  "verdict r =
     (case r of Inl e \<Rightarrow> Inl e | Inr (s, sc) \<Rightarrow> Inr (sc, score s, map correct (answers s)))"

text \<open>
  The score as the specification words it, \<open>round(100 * countCorrect / max(1, questionCount))\<close>,
  in exact arithmetic with the rounding of \<^verbatim>\<open>Math.round\<close>.
\<close>

definition spec_score :: "nat \<Rightarrow> nat \<Rightarrow> int" where
  "spec_score countCorrect nQuestions =
     math_round (100 * of_nat countCorrect / of_nat (max 1 nQuestions))"




section \<open>Example values\<close>

text \<open>
  Number-to-string and \<^verbatim>\<open>JSON.stringify\<close> for the examples: right on integers below \<open>10^21\<close>,
  and on values built from such integers and from strings that need no escape.
\<close>

definition ex_number_to_string :: "rat \<Rightarrow> string" where
  "ex_number_to_string r = (if r < 0 then ''-'' else []) @ dec (nat \<lfloor>\<bar>r\<bar>\<rfloor>)"

fun ex_stringify :: "json \<Rightarrow> string" where
  "ex_stringify JNull = ''null''"
| "ex_stringify (JBool b) = (if b then ''true'' else ''false'')"
| "ex_stringify (JNum n) = ex_number_to_string n"
| "ex_stringify (JStr s) = ''\"'' @ s @ ''\"''"
| "ex_stringify (JArr xs) = ''['' @ join_comma (map ex_stringify xs) @ '']''"
| "ex_stringify (JObj kvs) =
     ''{'' @ join_comma (map (\<lambda>kv. ''\"'' @ fst kv @ ''\":'' @ ex_stringify (snd kv)) kvs) @ ''}''"

definition ex_question :: "string \<Rightarrow> rat \<Rightarrow> json" where
  "ex_question i c =
     JObj [(''id'', JStr i), (''prompt'', JStr ''P''), (''choices'', JArr [JStr ''a'', JStr ''b'']),
           (''correctIndex'', JNum c)]"

definition ex_answer :: "string \<Rightarrow> json \<Rightarrow> json" where
  "ex_answer i v = JObj [(''qId'', JStr i), (''selectedIndex'', v)]"

definition ex_test :: "json list \<Rightarrow> test" where
  "ex_test qs =
     \<lparr>test_id = ''t1'', name = JStr ''n'', createdAt = ''c'', sourceText = JStr ''s'',
      questions = JArr qs, results = []\<rparr>"

definition ex_result :: "string \<Rightarrow> rat \<Rightarrow> rat \<Rightarrow> result_answer" where
  "ex_result i sel c =
     \<lparr>qId = Some (JStr i), prompt = Some (JStr ''P''), selectedIndex = sel, correctIndex = c,
      correct = (sel = c)\<rparr>"

definition ex_submission :: "string \<Rightarrow> int \<Rightarrow> result_answer list \<Rightarrow> submission" where
  "ex_submission i sc rs =
     \<lparr>sid = i, userId = JNull, timestamp = ''now'', score = sc, answers = rs\<rparr>"

text \<open>
  A response of the generator in the shape the handlers read first, with the given text; a
  text inside a fenced block; and a runtime whose generator answers every prompt with the
  given response. \<open>ex_parse\<close> is \<^verbatim>\<open>JSON.parse\<close> on the texts of the examples.
\<close>

definition ex_response :: "string \<Rightarrow> json" where
  "ex_response text =
     JObj [(''candidates'',
            JArr [JObj [(''content'', JObj [(''parts'', JArr [JObj [(''text'', JStr text)]])])]])]"

definition ex_fenced :: "string \<Rightarrow> string" where
  "ex_fenced text =
     replicate 3 backtick @ ''json\<newline>'' @ text @ ''\<newline>'' @ replicate 3 backtick"

definition ex_parse :: "string \<Rightarrow> json option" where
  "ex_parse s =
     (if s = ''{\"questions\": []}'' then Some (JObj [(''questions'', JArr [])])
      else if s = ''{\"questions\": [{\"question\": \"Q1\", \"choices\": [\"a\", \"b\"], \"correctIndex\": 5}]}''
      then Some (JObj [(''questions'',
              JArr [JObj [(''question'', JStr ''Q1''), (''choices'', JArr [JStr ''a'', JStr ''b'']),
                          (''correctIndex'', JNum 5)]])])
      else if s = ''{\"questions\": [{\"prompt\": \"A\"}, null]}''
      then Some (JObj [(''questions'', JArr [JObj [(''prompt'', JStr ''A'')], JNull])])
      else if s = ''{\"justifications\": [{\"qId\": \"q1\", \"explanation\": \"E\"}]}''
      then Some (JObj [(''justifications'',
              JArr [JObj [(''qId'', JStr ''q1''), (''explanation'', JStr ''E'')]])])
      else if s = ''{\"justifications\": [{\"qId\": \"zz\", \"explanation\": \"E\"}]}''
      then Some (JObj [(''justifications'',
              JArr [JObj [(''qId'', JStr ''zz''), (''explanation'', JStr ''E'')]])])
      else None)"

definition ex_runtime :: "json \<Rightarrow> runtime" where
  "ex_runtime resp =
     \<lparr>number_to_string = ex_number_to_string, json_parse = ex_parse,
      json_stringify = ex_stringify, call_gemini = (\<lambda>p n. Some resp), time36 = (\<lambda>i. ''lx2k'')\<rparr>"

section \<open>Properties\<close>

subsection \<open>Facts about the submit handler\<close>

lemma compute_score_zero: "compute_score 0 n = 0"
proof -
  have "\<lfloor>(1::rat) / 2\<rfloor> = 0"
    by (simp add: floor_eq_iff)
  then show ?thesis
    by (simp add: compute_score_def fl_def math_round_def)
qed

lemma grade_question_qId: "grade_question ns m q = Some r \<Longrightarrow> qId r = field q ''id''"
  by (auto simp: grade_question_def Let_def split: if_splits option.splits)


lemma grade_all_length: "grade_all ns m qs = Some rs \<Longrightarrow> length rs = length qs"
  by (induction qs arbitrary: rs) (auto split: option.splits)

lemma grade_all_nth:
  "grade_all ns m qs = Some rs \<Longrightarrow> i < length qs \<Longrightarrow>
   grade_question ns m (qs ! i) = Some (rs ! i)"
proof (induction qs arbitrary: rs i)
  case Nil
  then show ?case by simp
next
  case (Cons q qs)
  then show ?case
    by (cases i) (auto split: option.splits)
qed

lemma grade_questions:
  assumes "grade ns (questions t) a = Some (rs, sc)"
  shows "\<exists>as m. build_answers_map ns empty_object as = Some m \<and>
           js_or (Some a) (Some (JArr [])) = Some (JArr as) \<and>
           grade_all ns m (question_list t) = Some rs \<and>
           sc = compute_score (length (filter correct rs)) (length (question_list t))"
  using assms
  by (auto simp: grade_def question_list_def js_or_def split: option.splits json.splits if_splits)

lemma submit_ok:
  assumes "submit_handler ns new_id now tests tid body = (Inr (s, sc), tests')"
  shows "\<exists>t. find (\<lambda>t. test_id t = tid) tests = Some t \<and>
           grade ns (questions t) (with_default (field (body_or_empty body) ''answers'') (JArr []))
             = Some (answers s, sc) \<and>
           score s = sc \<and> sid s = new_id \<and> timestamp s = now \<and>
           tests' = push_result tid s tests"
  using assms
  by (auto simp: submit_handler_def Let_def split: option.splits prod.splits)

lemma submit_graded:
  assumes "submit_handler ns new_id now tests tid body = (Inr (s, sc), tests')"
      and "find (\<lambda>t. test_id t = tid) tests = Some t"
  shows "\<exists>m. build_answers_map ns empty_object (answer_entries body) = Some m \<and>
           grade_all ns m (question_list t) = Some (answers s) \<and>
           sc = compute_score (length (filter correct (answers s))) (length (question_list t)) \<and>
           score s = sc"
proof -
  from submit_ok [OF assms(1)] assms(2) have
    g: "grade ns (questions t) (with_default (field (body_or_empty body) ''answers'') (JArr []))
          = Some (answers s, sc)"
    and sc: "score s = sc" by auto
  from grade_questions [OF g] sc show ?thesis
    by (auto simp: answer_entries_def)
qed

lemma set_prop_plain:
  "k \<noteq> ''__proto__'' \<Longrightarrow> set_prop m k v = m\<lparr>own := (own m)(k \<mapsto> v)\<rparr>"
  by (simp add: set_prop_def)



lemma find_push_result:
  "find (\<lambda>t. test_id t = tid) tests = Some t \<Longrightarrow>
   find (\<lambda>t. test_id t = tid) (push_result tid s tests) = Some (t\<lparr>results := results t @ [s]\<rparr>)"
  by (induction tests) (auto split: if_splits)











lemma set_prop_agree:
  assumes "k \<noteq> ''__proto__''"
      and "proto m = proto m'" and "\<forall>j. j \<noteq> k \<longrightarrow> own m j = own m' j"
  shows "proto (set_prop m j v) = proto (set_prop m' j v) \<and>
         (\<forall>i. i \<noteq> k \<longrightarrow> own (set_prop m j v) i = own (set_prop m' j v) i)"
proof -
  from assms have "reaches_proto_setter m = reaches_proto_setter m'"
    by (simp add: reaches_proto_setter_def)
  with assms show ?thesis
    by (auto simp: set_prop_def proto_setter_def split: option.splits json.splits)
qed

lemma set_prop_same_key:
  assumes "k \<noteq> ''__proto__''"
      and "proto m = proto m'" and "\<forall>j. j \<noteq> k \<longrightarrow> own m j = own m' j"
  shows "set_prop m k v = set_prop m' k v"
proof -
  have "own (set_prop m k v) = own (set_prop m' k v)"
    using assms by (auto simp: set_prop_plain fun_eq_iff)
  moreover have "proto (set_prop m k v) = proto (set_prop m' k v)"
    using assms by (simp add: set_prop_plain)
  ultimately show ?thesis by simp
qed

lemma build_answers_map_overwritten:
  assumes "k \<noteq> ''__proto__''"
      and "b \<noteq> JNull" and "to_key ns (field b ''qId'') = Some k"
      and "proto m = proto m'" and "\<forall>j. j \<noteq> k \<longrightarrow> own m j = own m' j"
  shows "build_answers_map ns m (ys @ b # zs) = build_answers_map ns m' (ys @ b # zs)"
  using assms(4,5)
proof (induction ys arbitrary: m m')
  case Nil
  from set_prop_same_key [OF assms(1) Nil] assms(2,3) show ?case by simp
next
  case (Cons y ys)
  show ?case
  proof (cases "y = JNull \<or> to_key ns (field y ''qId'') = None")
    case True
    then show ?thesis by auto
  next
    case False
    then obtain j where j: "y \<noteq> JNull" "to_key ns (field y ''qId'') = Some j" by auto
    from set_prop_agree [OF assms(1) Cons.prems, of j "field y ''selectedIndex''"]
    have "build_answers_map ns (set_prop m j (field y ''selectedIndex'')) (ys @ b # zs) =
          build_answers_map ns (set_prop m' j (field y ''selectedIndex'')) (ys @ b # zs)"
      by (intro Cons.IH) auto
    with j show ?thesis by simp
  qed
qed

lemma build_answers_map_append:
  "build_answers_map ns acc (xs @ ys) =
     (case build_answers_map ns acc xs of None \<Rightarrow> None | Some m \<Rightarrow> build_answers_map ns m ys)"
  by (induction xs arbitrary: acc) (auto split: option.splits)

text \<open>
  For every key but \<^verbatim>\<open>__proto__\<close> the fold of line 180 overwrites: an entry followed by a later
  entry with the same key has no effect on the grading.
\<close>

lemma later_entry_overwrites:
  assumes "a \<noteq> JNull" and "to_key ns (field a ''qId'') = Some k"
      and "b \<noteq> JNull" and "to_key ns (field b ''qId'') = Some k"
      and "k \<noteq> ''__proto__''"
  shows "grade ns q (JArr (xs @ a # ys @ b # zs)) = grade ns q (JArr (xs @ ys @ b # zs))"
proof -
  have "build_answers_map ns acc (a # ys @ b # zs) = build_answers_map ns acc (ys @ b # zs)" for acc
  proof -
    have "build_answers_map ns (set_prop acc k (field a ''selectedIndex'')) (ys @ b # zs) =
          build_answers_map ns acc (ys @ b # zs)"
      by (rule build_answers_map_overwritten [OF assms(5,3,4)])
         (simp_all add: set_prop_plain [OF assms(5)])
    with assms(1,2) show ?thesis by simp
  qed
  then have "build_answers_map ns empty_object (xs @ a # ys @ b # zs) =
             build_answers_map ns empty_object (xs @ ys @ b # zs)"
    by (simp add: build_answers_map_append [of ns empty_object xs] split: option.splits)
  then show ?thesis
    by (auto simp: grade_def js_or_def split: json.splits option.splits)
qed

subsection \<open>Facts about the score\<close>

text \<open>
  The error of the model's rounding: \<open>fl x\<close> differs from \<open>x\<close> by at most \<open>\<bar>x\<bar> / 2 ^ 53\<close>, and
  the score before \<^verbatim>\<open>Math.round\<close> from the exact percentage by less than \<open>1 / 2 ^ 44\<close>.
\<close>

lemma round_half_even_error: "\<bar>of_int (round_half_even t) - t\<bar> \<le> 1 / 2"
proof -
  have "of_int \<lfloor>t\<rfloor> \<le> t" "t < of_int \<lfloor>t\<rfloor> + 1"
    by linarith+
  then show ?thesis
    by (auto simp: round_half_even_def Let_def abs_le_iff)
qed

lemma expo_le:
  assumes "x \<noteq> 0"
  shows "2 powi (expo x) \<le> \<bar>x\<bar>"
proof -
  obtain a b where ab: "quotient_of \<bar>x\<bar> = (a, b)" by force
  have b: "0 < b" using ab by (rule quotient_of_denom_pos)
  have x: "\<bar>x\<bar> = of_int a / of_int b" using ab by (rule quotient_of_div)
  from assms have "0 < \<bar>x\<bar>" by simp
  with x b have a: "0 < a"
    by (simp add: zero_less_divide_iff)
  define p where "p = bitlen a"
  define r where "r = bitlen b"
  have la: "(2::int) ^ nat (p - 1) \<le> a" and lb: "b < 2 ^ nat r"
    using bitlen_bounds [OF a] bitlen_bounds [OF b] by (simp_all add: p_def r_def)
  have "p \<noteq> 0" "0 \<le> p"
    using a by (simp_all add: p_def bitlen_eq_zero_iff bitlen_nonneg)
  then have p: "1 \<le> p" by simp
  have r: "0 \<le> r"
    by (simp add: r_def bitlen_nonneg)
  have e: "expo x = (if 2 powi (p - r) \<le> \<bar>x\<bar> then p - r else p - r - 1)"
    by (simp add: expo_def ab p_def r_def)
  have low: "(2::rat) powi (p - r - 1) \<le> \<bar>x\<bar>"
  proof -
    have "(of_int b :: rat) \<le> of_int (2 ^ nat r)"
      using lb by (simp only: of_int_le_iff)
    also have "\<dots> = 2 powi r"
      using r by (simp add: power_int_def)
    finally have "(2::rat) powi (p - r - 1) * of_int b \<le> 2 powi (p - r - 1) * 2 powi r"
      by (intro mult_left_mono) simp_all
    also have "\<dots> = 2 powi (p - 1)"
      by (simp add: power_int_add [symmetric])
    also have "\<dots> = of_int (2 ^ nat (p - 1))"
      using p by (simp add: power_int_def)
    also have "\<dots> \<le> of_int a"
      using la by (simp only: of_int_le_iff)
    finally show ?thesis
      using b by (simp add: x pos_le_divide_eq)
  qed
  show ?thesis
    using low by (simp add: e)
qed

lemma fl_error: "\<bar>fl x - x\<bar> \<le> \<bar>x\<bar> / 2 ^ 53"
proof (cases "x = 0")
  case True
  then show ?thesis by (simp add: fl_def)
next
  case False
  define u :: rat where "u = 2 powi (expo x - 52)"
  define k where "k = round_half_even (\<bar>x\<bar> / u)"
  have u: "0 < u" by (simp add: u_def)
  have f: "fl x = sgn x * of_int k * u"
    using False by (simp add: fl_def Let_def u_def k_def)
  have "fl x - x = sgn x * (of_int k * u - \<bar>x\<bar>)"
    by (simp add: f algebra_simps flip: abs_sgn [of x, symmetric])
  then have "\<bar>fl x - x\<bar> = \<bar>of_int k * u - \<bar>x\<bar>\<bar>"
    using False by (simp add: abs_mult abs_sgn_eq)
  also have "\<dots> = \<bar>of_int k - \<bar>x\<bar> / u\<bar> * u"
    using u by (simp add: abs_mult [symmetric] algebra_simps) (simp add: field_simps)
  also have "\<dots> \<le> 1 / 2 * u"
    using u round_half_even_error [of "\<bar>x\<bar> / u"] by (intro mult_right_mono) (simp_all add: k_def)
  also have "\<dots> = 2 powi (expo x) / 2 ^ 53"
    by (simp add: u_def power_int_diff)
  also have "\<dots> \<le> \<bar>x\<bar> / 2 ^ 53"
    using expo_le [OF False] by (simp add: divide_right_mono)
  finally show ?thesis .
qed


lemma fl_nonneg: "0 \<le> x \<Longrightarrow> 0 \<le> fl x"
proof -
  assume x: "0 \<le> x"
  have "0 \<le> round_half_even t" if "0 \<le> t" for t
  proof -
    from that have "0 \<le> \<lfloor>t\<rfloor>" by simp
    then show ?thesis by (simp add: round_half_even_def Let_def)
  qed
  then have "0 \<le> round_half_even (\<bar>x\<bar> / 2 powi (expo x - 52))"
    by simp
  with x show ?thesis
    by (simp add: fl_def Let_def sgn_if)
qed

lemma score_error:
  assumes "c \<le> m" and "0 < m"
  shows "\<bar>fl (fl (of_nat c / of_nat m) * 100) - 100 * of_nat c / of_nat m\<bar> < 1 / 2 ^ 44"
proof -
  define q :: rat where "q = of_nat c / of_nat m"
  define y where "y = fl q"
  define z where "z = fl (y * 100)"
  have q: "0 \<le> q" "q \<le> 1"
    using assms by (simp_all add: q_def)
  have y: "\<bar>y - q\<bar> \<le> q / 2 ^ 53"
    using fl_error [of q] q by (simp add: y_def)
  have y0: "0 \<le> y"
    using q by (simp add: y_def fl_nonneg)
  have z: "\<bar>z - y * 100\<bar> \<le> y * 100 / 2 ^ 53"
    using fl_error [of "y * 100"] y0 by (simp add: z_def)
  have "q / 2 ^ 53 \<le> 1 / 2 ^ 53"
    using q by (intro divide_right_mono) simp_all
  with y have "y - q \<le> 1 / 2 ^ 53"
    by linarith
  with q have y1: "y \<le> 1 + 1 / 2 ^ 53"
    by linarith
  have "z - 100 * q = (z - y * 100) + 100 * (y - q)"
    by (simp add: algebra_simps)
  then have "\<bar>z - 100 * q\<bar> \<le> \<bar>z - y * 100\<bar> + \<bar>100 * (y - q)\<bar>"
    by (simp only: abs_triangle_ineq)
  moreover have "\<bar>100 * (y - q)\<bar> = 100 * \<bar>y - q\<bar>"
    by (simp only: abs_mult abs_numeral)
  ultimately have "\<bar>z - 100 * q\<bar> \<le> \<bar>z - y * 100\<bar> + 100 * \<bar>y - q\<bar>"
    by (simp only:)
  also have "\<dots> \<le> y * 100 / 2 ^ 53 + 100 * (q / 2 ^ 53)"
    using y z by (intro add_mono) simp_all
  also have "\<dots> \<le> (1 + 1 / 2 ^ 53) * 100 / 2 ^ 53 + 100 * (1 / 2 ^ 53)"
    using y1 q by (intro add_mono mult_left_mono divide_right_mono mult_right_mono) simp_all
  also have "\<dots> < 1 / 2 ^ 44"
    by simp
  finally show ?thesis
    by (simp add: z_def y_def q_def)
qed


text \<open>
  Off the ties the score of line 196 is the score of the specification: when
  \<open>100 * countCorrect / max(1, questionCount)\<close> is not halfway between two integers, the
  rounding errors of the division and of the multiplication do not reach the next half.
\<close>

lemma compute_score_exact:
  assumes "c \<le> n" and "n < 2 ^ 32"
      and "\<not> 2 * max 1 n dvd 200 * c + max 1 n"
  shows "compute_score c n = spec_score c n"
proof -
  define m where "m = max 1 n"
  define N :: int where "N = 200 * int c + int m"
  define D :: int where "D = 2 * int m"
  define v :: rat where "v = 100 * of_nat c / of_nat m"
  define z where "z = fl (fl (of_nat c / of_nat m) * 100)"
  define k where "k = N div D"
  have m: "0 < m" "c \<le> m" "m < 2 ^ 32"
    using assms(1,2) by (simp_all add: m_def max_def)
  have D: "0 < D" "D \<le> 2 ^ 33"
    using m by (simp_all add: D_def)
  have half: "v + 1 / 2 = of_int N / of_int D"
    using m by (simp add: v_def N_def D_def field_simps)
  have "\<not> D dvd N"
  proof
    assume "D dvd N"
    then have "int (2 * m) dvd int (200 * c + m)"
      by (simp add: D_def N_def)
    then have "2 * m dvd 200 * c + m"
      by (simp only: int_dvd_int_iff)
    with assms(3) show False
      by (simp add: m_def)
  qed
  then have r0: "N mod D \<noteq> 0"
    by (simp add: dvd_eq_mod_eq_0)
  have r: "1 \<le> N mod D" "N mod D \<le> D - 1"
    using r0 D pos_mod_sign [of D N] pos_mod_bound [of D N] by linarith+
  have split: "of_int N / of_int D = (of_int k :: rat) + of_int (N mod D) / of_int D"
  proof -
    have "N = D * k + N mod D"
      by (simp add: k_def)
    then have "(of_int N :: rat) = of_int D * of_int k + of_int (N mod D)"
      by (metis of_int_add of_int_mult)
    then show ?thesis
      using D by (simp add: field_simps)
  qed
  have gap: "(1 :: rat) / 2 ^ 33 \<le> 1 / of_int D"
  proof -
    have "(of_int D :: rat) \<le> of_int (2 ^ 33)"
      using D by (simp only: of_int_le_iff)
    then show ?thesis
      using D by (simp add: frac_le)
  qed
  have lower: "of_int k + 1 / 2 ^ 33 \<le> v + 1 / 2"
  proof -
    have "(1 :: rat) / of_int D \<le> of_int (N mod D) / of_int D"
      using r(1) D by (intro divide_right_mono) simp_all
    with gap have "(of_int k :: rat) + 1 / 2 ^ 33 \<le> of_int k + of_int (N mod D) / of_int D"
      by linarith
    then show ?thesis
      by (simp only: half split)
  qed
  have upper: "v + 1 / 2 \<le> of_int k + 1 - 1 / 2 ^ 33"
  proof -
    have "(of_int (N mod D) :: rat) \<le> of_int (D - 1)"
      using r(2) by (simp only: of_int_le_iff)
    then have "(of_int (N mod D) :: rat) / of_int D \<le> of_int (D - 1) / of_int D"
      using D by (intro divide_right_mono) simp_all
    also have "\<dots> = 1 - 1 / of_int D"
      using D by (simp add: field_simps)
    finally have "(of_int k :: rat) + of_int (N mod D) / of_int D \<le> of_int k + 1 - 1 / 2 ^ 33"
      using gap by linarith
    then show ?thesis
      by (simp only: half split)
  qed
  have err: "\<bar>z - v\<bar> < 1 / 2 ^ 44"
    using score_error [OF m(2,1)] by (simp add: z_def v_def)
  have "(1 :: rat) / 2 ^ 44 < 1 / 2 ^ 33"
    by simp
  with err lower upper have "of_int k \<le> z + 1 / 2" "z + 1 / 2 < of_int k + 1"
    by linarith+
  then have "\<lfloor>z + 1 / 2\<rfloor> = k"
    by (rule floor_unique)
  moreover have "\<lfloor>v + 1 / 2\<rfloor> = k"
    by (simp add: half k_def floor_divide_of_int_eq)
  ultimately show ?thesis
    by (simp add: compute_score_def spec_score_def math_round_def z_def v_def m_def)
qed

subsection \<open>The score\<close>

text \<open>
  C1. The specification gives the score as \<open>round(100 * countCorrect / max(1, questionCount))\<close>.
  Line 196 divides first and multiplies by 100 afterwards, in double arithmetic. For a test of
  40 questions of which 23 are answered correctly the quotient \<open>23 / 40\<close> is rounded to a double
  below \<open>0.575\<close>, its product with 100 to the double below \<open>57.5\<close>, and \<^verbatim>\<open>Math.round\<close> returns
  57, where the exact value \<open>57.5\<close> rounds to 58. The request below answers the first 23 of 40
  questions correctly and is given the score 57. The two scores differ on such ties only
  (\<open>compute_score_exact\<close>), and a test without questions is given the score 0
  (\<open>compute_score_zero\<close>).
\<close>

theorem score_of_23_of_40:
  "verdict (fst (submit_handler ex_number_to_string ''sub_1'' ''now''
       [ex_test (map (\<lambda>i. ex_question (dec i) 0) [0..<40])] ''t1''
       (JObj [(''answers'', JArr (map (\<lambda>i. ex_answer (dec i) (JNum 0)) [0..<23]))])))
     = Inr (57, 57, replicate 23 True @ replicate 17 False) \<and>
   compute_score 23 40 = 57 \<and> spec_score 23 40 = 58"
  by code_simp

subsection \<open>The answers of a submission\<close>

text \<open>
  C2. When the submit handler creates a submission for a stored test, the submission's
  \<open>answers\<close> has one entry for each question of the test, in the order of the test's
  questions: the lengths agree, and the \<open>qId\<close> of the \<open>i\<close>-th answer is the \<open>id\<close> of the \<open>i\<close>-th
  question, whatever the request answered.
\<close>

theorem submission_answers_follow_questions:
  assumes "submit_handler ns new_id now tests tid body = (Inr (s, sc), tests')"
      and "find (\<lambda>t. test_id t = tid) tests = Some t"
  shows "length (answers s) = length (question_list t) \<and>
         (\<forall>i < length (question_list t). qId (answers s ! i) = field (question_list t ! i) ''id'')"
proof -
  from submit_graded [OF assms] obtain m where
    ga: "grade_all ns m (question_list t) = Some (answers s)" by auto
  have "qId (answers s ! i) = field (question_list t ! i) ''id''"
    if "i < length (question_list t)" for i
    using grade_all_nth [OF ga that] by (rule grade_question_qId)
  then show ?thesis
    using grade_all_length [OF ga] by simp
qed

theorem submission_answers_follow_questions_witness:
  "submit_handler ex_number_to_string ''sub_1'' ''now''
      [ex_test [ex_question ''q1'' 1, ex_question ''q2'' 0]] ''t1''
      (JObj [(''answers'', JArr [ex_answer ''q1'' (JNum 1)])])
     = (Inr (ex_submission ''sub_1'' 50 [ex_result ''q1'' 1 1, ex_result ''q2'' (- 1) 0], 50),
        [(ex_test [ex_question ''q1'' 1, ex_question ''q2'' 0])
           \<lparr>results := [ex_submission ''sub_1'' 50 [ex_result ''q1'' 1 1, ex_result ''q2'' (- 1) 0]]\<rparr>]) \<and>
   length (answers (ex_submission ''sub_1'' 50 [ex_result ''q1'' 1 1, ex_result ''q2'' (- 1) 0])) = 2 \<and>
   qId (answers (ex_submission ''sub_1'' 50 [ex_result ''q1'' 1 1, ex_result ''q2'' (- 1) 0]) ! 1)
     = Some (JStr ''q2'')"
proof -
  let ?t = "ex_test [ex_question ''q1'' 1, ex_question ''q2'' 0]"
  let ?s = "ex_submission ''sub_1'' 50 [ex_result ''q1'' 1 1, ex_result ''q2'' (- 1) 0]"
  have run: "submit_handler ex_number_to_string ''sub_1'' ''now'' [?t] ''t1''
               (JObj [(''answers'', JArr [ex_answer ''q1'' (JNum 1)])])
             = (Inr (?s, 50), [?t\<lparr>results := [?s]\<rparr>])"
    by code_simp
  have found: "find (\<lambda>t. test_id t = ''t1'') [?t] = Some ?t"
    by (simp add: ex_test_def)
  have len: "length (question_list ?t) = 2"
    by (simp add: question_list_def ex_test_def)
  have second: "field (question_list ?t ! 1) ''id'' = Some (JStr ''q2'')"
    by (simp add: question_list_def ex_test_def ex_question_def field_def)
  from submission_answers_follow_questions [OF run found] len second
  have "length (answers ?s) = 2" and "qId (answers ?s ! 1) = Some (JStr ''q2'')"
    by simp_all
  with run show ?thesis by simp
qed




subsection \<open>What the grading depends on\<close>



text \<open>
  C9. Grading is a function of the test's questions and the answers: when a submit request
  has produced a submission, the same answers submitted again, against the store that now
  holds that submission and with another id and timestamp, produce a submission with the same
  score and the same \<open>correct\<close> flags.
\<close>

theorem regrading_is_identical:
  assumes "submit_handler ns id1 now1 tests tid body = (Inr (s1, sc1), tests1)"
  shows "\<exists>s2 tests2. submit_handler ns id2 now2 tests1 tid body = (Inr (s2, sc1), tests2) \<and>
           score s2 = score s1 \<and> map correct (answers s2) = map correct (answers s1)"
proof -
  from submit_ok [OF assms] obtain t where
    f: "find (\<lambda>t. test_id t = tid) tests = Some t"
    and g: "grade ns (questions t) (with_default (field (body_or_empty body) ''answers'') (JArr []))
              = Some (answers s1, sc1)"
    and sc: "score s1 = sc1" and t1: "tests1 = push_result tid s1 tests" by auto
  from find_push_result [OF f] t1 have
    "find (\<lambda>t. test_id t = tid) tests1 = Some (t\<lparr>results := results t @ [s1]\<rparr>)" by simp
  with g sc show ?thesis
    by (simp add: submit_handler_def Let_def)
qed

theorem regrading_is_identical_witness:
  "\<exists>s2 tests2.
     submit_handler ex_number_to_string ''sub_2'' ''later''
       [(ex_test [ex_question ''q1'' 1, ex_question ''q2'' 0])
          \<lparr>results := [ex_submission ''sub_1'' 50 [ex_result ''q1'' 1 1, ex_result ''q2'' 1 0]]\<rparr>]
       ''t1'' (JObj [(''answers'', JArr [ex_answer ''q1'' (JNum 1), ex_answer ''q2'' (JNum 1)])])
       = (Inr (s2, 50), tests2) \<and>
     score s2 = 50 \<and> map correct (answers s2) = [True, False]"
proof -
  let ?t = "ex_test [ex_question ''q1'' 1, ex_question ''q2'' 0]"
  let ?s = "ex_submission ''sub_1'' 50 [ex_result ''q1'' 1 1, ex_result ''q2'' 1 0]"
  let ?body = "JObj [(''answers'', JArr [ex_answer ''q1'' (JNum 1), ex_answer ''q2'' (JNum 1)])]"
  have run: "submit_handler ex_number_to_string ''sub_1'' ''now'' [?t] ''t1'' ?body
             = (Inr (?s, 50), [?t\<lparr>results := [?s]\<rparr>])"
    by code_simp
  have first: "score ?s = 50" "map correct (answers ?s) = [True, False]"
    by code_simp+
  from regrading_is_identical [OF run, of "''sub_2''" "''later''"] first
  show ?thesis by simp
qed

text \<open>
  C10. The answers are folded into an ordinary object, and the claim holds for every key that
  is an ordinary property (\<open>later_entry_overwrites\<close>). It fails for entries whose \<open>qId\<close> is
  \<^verbatim>\<open>__proto__\<close>: the assignment of line 180 then calls the prototype setter. In the first
  request below the earlier of two such entries makes its \<open>selectedIndex\<close> object the
  prototype of the map, and the question \<open>q1\<close>, which no entry names, is graded with the
  selection 1 found there; without the earlier entry (second request) the score is 0. In the
  third request the question's own id is \<^verbatim>\<open>__proto__\<close>, and the \<open>selectedIndex\<close> of the last
  entry, 1, is not used: the question is recorded with \<open>-1\<close>.
\<close>

theorem proto_entries_not_overwritten:
  "verdict (fst (submit_handler ex_number_to_string ''sub_1'' ''now''
       [ex_test [ex_question ''q1'' 1]] ''t1''
       (JObj [(''answers'', JArr [ex_answer ''__proto__'' (JObj [(''q1'', JNum 1)]),
                                  ex_answer ''__proto__'' (JNum 0)])])))
     = Inr (100, 100, [True]) \<and>
   verdict (fst (submit_handler ex_number_to_string ''sub_1'' ''now''
       [ex_test [ex_question ''q1'' 1]] ''t1''
       (JObj [(''answers'', JArr [ex_answer ''__proto__'' (JNum 0)])])))
     = Inr (0, 0, [False]) \<and>
   fst (submit_handler ex_number_to_string ''sub_1'' ''now''
       [ex_test [ex_question ''__proto__'' 1]] ''t1''
       (JObj [(''answers'', JArr [ex_answer ''__proto__'' (JNum 0),
                                  ex_answer ''__proto__'' (JNum 1)])]))
     = Inr (ex_submission ''sub_1'' 0 [ex_result ''__proto__'' (- 1) 1], 0)"
  by code_simp

subsection \<open>Facts about the parser\<close>




















subsection \<open>The defensive parser\<close>





subsection \<open>Normalisation of the generated questions\<close>

lemma normalize_question_fields:
  assumes "q \<noteq> JNull"
  shows "\<exists>n. normalize_question rt i q = Some n \<and>
           field n ''id'' = Some (or_else (field q ''id'') (JStr (''q_'' @ time36 rt i @ ''_'' @ dec i))) \<and>
           field n ''prompt'' = Some (or_else (field q ''prompt'') (or_else (field q ''question'') (JStr []))) \<and>
           field n ''choices'' = Some (or_else (field q ''choices'') (or_else (field q ''options'') (JArr []))) \<and>
           field n ''correctIndex'' = Some (JNum (number_or (field q ''correctIndex'') 0))"
  using assms by (simp add: normalize_question_def field_def)



lemma normalize_from_total:
  assumes "\<forall>q \<in> set cands. q \<noteq> JNull"
  shows "\<exists>ns. normalize_from rt i cands = Some ns \<and> length ns = length cands \<and>
           (\<forall>j < length cands. normalize_question rt (i + j) (cands ! j) = Some (ns ! j))"
  using assms
proof (induction cands arbitrary: i)
  case Nil
  then show ?case by simp
next
  case (Cons q qs)
  from Cons.prems obtain n where n: "normalize_question rt i q = Some n"
    using normalize_question_fields [of q rt i] by auto
  from Cons.IH [of "Suc i"] Cons.prems obtain ns where
    ns: "normalize_from rt (Suc i) qs = Some ns" "length ns = length qs"
        "\<forall>j < length qs. normalize_question rt (Suc i + j) (qs ! j) = Some (ns ! j)"
    by auto
  have "\<forall>j < length (q # qs). normalize_question rt (i + j) ((q # qs) ! j) = Some ((n # ns) ! j)"
  proof (intro allI impI)
    fix j assume "j < length (q # qs)"
    then show "normalize_question rt (i + j) ((q # qs) ! j) = Some ((n # ns) ! j)"
      using n ns(3) by (cases j) auto
  qed
  with n ns show ?case by simp
qed

lemma normalize_from_length: "normalize_from rt i cands = Some ns \<Longrightarrow> length ns = length cands"
  by (induction cands arbitrary: i ns) (auto split: option.splits)

lemma normalize_from_null:
  "JNull \<in> set cands \<Longrightarrow> normalize_from rt i cands = None"
  by (induction cands arbitrary: i) (auto simp: normalize_question_def split: option.splits)

lemma normalize_from_some:
  "JNull \<notin> set cands \<Longrightarrow> \<exists>qs. normalize_from rt i cands = Some qs \<and> length qs = length cands"
  using normalize_from_total [of cands rt i] by (metis)

lemma create_from_response_questions:
  assumes "safelyParseJsonFromText rt (raw_output rt modelResp) = Some parsed"
      and "field parsed ''questions'' = Some (JArr cands)"
  shows "create_from_response rt new_id now tests nm txt modelResp =
           (case normalize_from rt 0 cands of
              None \<Rightarrow> (Inl (500, ''Could not create test''), tests)
            | Some qs \<Rightarrow>
                (Inr \<lparr>meta_id = new_id, meta_name = nm, meta_createdAt = now,
                       questionCount = length qs\<rparr>,
                 tests @ [\<lparr>test_id = new_id, name = nm, createdAt = now,
                           sourceText = txt, questions = JArr qs, results = []\<rparr>]))"
proof -
  from assms(2) have "truthy (Some parsed)"
    by (cases parsed) (simp_all add: field_def)
  with assms show ?thesis
    by (simp add: create_from_response_def)
qed




subsection \<open>Creating a test\<close>

text \<open>
  C6, as the specification states it, fails: the code has no check for an empty result. When
  the generator's response parses to an object with an empty \<^verbatim>\<open>questions\<close> array, the create
  handler answers 201 with \<open>questionCount = 0\<close> and stores a test without questions.
\<close>

theorem empty_generation_is_stored:
  "create_handler (ex_runtime (ex_response (ex_fenced ''{\"questions\": []}''))) ''test_1'' ''now'' []
       (JObj [(''name'', JStr ''N''), (''text'', JStr ''passage'')])
     = (Inr \<lparr>meta_id = ''test_1'', meta_name = JStr ''N'', meta_createdAt = ''now'',
              questionCount = 0\<rparr>,
        [\<lparr>test_id = ''test_1'', name = JStr ''N'', createdAt = ''now'',
          sourceText = JStr ''passage'', questions = JArr [], results = []\<rparr>])"
  by code_simp

text \<open>
  C6, amended. Take a response of the generator that parses to a value with a \<^verbatim>\<open>questions\<close>
  array. If no item of the array is \<^verbatim>\<open>null\<close>, the create operation succeeds and appends exactly
  one test to the store, under the new id and without results, whose question sequence has as
  many entries as the array has items; the \<open>questionCount\<close> of the response is that number.
  This includes the empty array: there is no error for an empty generation. If an item of the
  array is \<^verbatim>\<open>null\<close>, the operation fails with 500 "Could not create test" and the store is left
  as it was. Conversely, a test is only created from a response that parses to a value with
  a \<^verbatim>\<open>questions\<close> array without \<^verbatim>\<open>null\<close> items.
\<close>

theorem create_stores_parsed_questions:
  "(create_from_response rt new_id now tests nm txt modelResp = (Inr meta, tests')
      \<longrightarrow> (\<exists>parsed cands t'.
             safelyParseJsonFromText rt (raw_output rt modelResp) = Some parsed \<and>
             field parsed ''questions'' = Some (JArr cands) \<and> JNull \<notin> set cands \<and>
             meta_id meta = new_id \<and> questionCount meta = length cands \<and>
             tests' = tests @ [t'] \<and> test_id t' = new_id \<and> results t' = [] \<and>
             length (question_list t') = length cands)) \<and>
   (safelyParseJsonFromText rt (raw_output rt modelResp) = Some parsed \<and>
    field parsed ''questions'' = Some (JArr cands)
      \<longrightarrow> (if JNull \<in> set cands
          then create_from_response rt new_id now tests nm txt modelResp
                 = (Inl (500, ''Could not create test''), tests)
          else (\<exists>meta t'.
                  create_from_response rt new_id now tests nm txt modelResp
                    = (Inr meta, tests @ [t']) \<and>
                  meta_id meta = new_id \<and> questionCount meta = length cands \<and>
                  test_id t' = new_id \<and> results t' = [] \<and>
                  length (question_list t') = length cands)))"
proof (intro conjI impI)
  assume a: "create_from_response rt new_id now tests nm txt modelResp = (Inr meta, tests')"
  then obtain parsed cands qs where
    p: "safelyParseJsonFromText rt (raw_output rt modelResp) = Some parsed"
       "field parsed ''questions'' = Some (JArr cands)"
       "normalize_from rt 0 cands = Some qs"
    and m: "meta = \<lparr>meta_id = new_id, meta_name = nm, meta_createdAt = now,
                    questionCount = length qs\<rparr>"
    and t: "tests' = tests @ [\<lparr>test_id = new_id, name = nm, createdAt = now,
                              sourceText = txt, questions = JArr qs, results = []\<rparr>]"
    by (auto simp: create_from_response_def split: option.splits json.splits if_splits)
  from p(3) have nn: "JNull \<notin> set cands"
    using normalize_from_null [of cands rt 0] by auto
  from p(3) have len: "length qs = length cands"
    by (rule normalize_from_length)
  let ?t = "\<lparr>test_id = new_id, name = nm, createdAt = now,
              sourceText = txt, questions = JArr qs, results = []\<rparr>"
  have "tests' = tests @ [?t] \<and> test_id ?t = new_id \<and> results ?t = [] \<and>
        length (question_list ?t) = length cands"
    using t len by (simp add: question_list_def)
  with p(1,2) nn m len show "\<exists>parsed cands t'.
             safelyParseJsonFromText rt (raw_output rt modelResp) = Some parsed \<and>
             field parsed ''questions'' = Some (JArr cands) \<and> JNull \<notin> set cands \<and>
             meta_id meta = new_id \<and> questionCount meta = length cands \<and>
             tests' = tests @ [t'] \<and> test_id t' = new_id \<and> results t' = [] \<and>
             length (question_list t') = length cands"
    by (intro exI [of _ parsed] exI [of _ cands] exI [of _ ?t]) simp
next
  assume a: "safelyParseJsonFromText rt (raw_output rt modelResp) = Some parsed \<and>
    field parsed ''questions'' = Some (JArr cands)"
  then have p: "safelyParseJsonFromText rt (raw_output rt modelResp) = Some parsed"
      "field parsed ''questions'' = Some (JArr cands)"
    by simp_all
  note run = create_from_response_questions [OF p, of new_id now tests nm "txt"]
  show "if JNull \<in> set cands
          then create_from_response rt new_id now tests nm txt modelResp
                 = (Inl (500, ''Could not create test''), tests)
          else (\<exists>meta t'.
                  create_from_response rt new_id now tests nm txt modelResp
                    = (Inr meta, tests @ [t']) \<and>
                  meta_id meta = new_id \<and> questionCount meta = length cands \<and>
                  test_id t' = new_id \<and> results t' = [] \<and>
                  length (question_list t') = length cands)"
  proof (cases "JNull \<in> set cands")
    case True
    then show ?thesis
      using run by (simp add: normalize_from_null)
  next
    case False
    then obtain qs where qs: "normalize_from rt 0 cands = Some qs" "length qs = length cands"
      using normalize_from_some by blast
    let ?t = "\<lparr>test_id = new_id, name = nm, createdAt = now,
                sourceText = txt, questions = JArr qs, results = []\<rparr>"
    let ?m = "\<lparr>meta_id = new_id, meta_name = nm, meta_createdAt = now,
                questionCount = length qs\<rparr>"
    have "create_from_response rt new_id now tests nm txt modelResp = (Inr ?m, tests @ [?t]) \<and>
          meta_id ?m = new_id \<and> questionCount ?m = length cands \<and>
          test_id ?t = new_id \<and> results ?t = [] \<and>
          length (question_list ?t) = length cands"
      using run qs by (simp add: question_list_def)
    then have "\<exists>meta t'.
                  create_from_response rt new_id now tests nm txt modelResp
                    = (Inr meta, tests @ [t']) \<and>
                  meta_id meta = new_id \<and> questionCount meta = length cands \<and>
                  test_id t' = new_id \<and> results t' = [] \<and>
                  length (question_list t') = length cands"
      by blast
    with False show ?thesis by simp
  qed
qed

theorem create_stores_parsed_questions_witness:
  "(\<exists>meta t'.
      create_from_response (ex_runtime JNull) ''test_1'' ''now'' [] (JStr ''N'') (JStr ''passage'')
          (ex_response (ex_fenced ''{\"questions\": [{\"question\": \"Q1\", \"choices\": [\"a\", \"b\"], \"correctIndex\": 5}]}''))
        = (Inr meta, [t']) \<and>
      meta_id meta = ''test_1'' \<and> questionCount meta = 1 \<and>
      test_id t' = ''test_1'' \<and> results t' = [] \<and> length (question_list t') = 1) \<and>
   create_from_response (ex_runtime JNull) ''test_1'' ''now'' [] (JStr ''N'') (JStr ''passage'')
       (ex_response (ex_fenced ''{\"questions\": [{\"prompt\": \"A\"}, null]}''))
     = (Inl (500, ''Could not create test''), [])"
proof -
  let ?rt = "ex_runtime JNull"
  let ?resp = "ex_response (ex_fenced ''{\"questions\": [{\"question\": \"Q1\", \"choices\": [\"a\", \"b\"], \"correctIndex\": 5}]}'')"
  let ?cands = "[JObj [(''question'', JStr ''Q1''), (''choices'', JArr [JStr ''a'', JStr ''b'']),
                       (''correctIndex'', JNum 5)]]"
  let ?bad = "ex_response (ex_fenced ''{\"questions\": [{\"prompt\": \"A\"}, null]}'')"
  let ?items = "[JObj [(''prompt'', JStr ''A'')], JNull]"
  have parsed: "safelyParseJsonFromText ?rt (raw_output ?rt ?resp) = Some (JObj [(''questions'', JArr ?cands)])"
    by code_simp
  have arr: "field (JObj [(''questions'', JArr ?cands)]) ''questions'' = Some (JArr ?cands)"
    by code_simp
  have nonnull: "JNull \<notin> set ?cands"
    by simp
  have parsed_bad: "safelyParseJsonFromText ?rt (raw_output ?rt ?bad) = Some (JObj [(''questions'', JArr ?items)])"
    by code_simp
  have arr_bad: "field (JObj [(''questions'', JArr ?items)]) ''questions'' = Some (JArr ?items)"
    by code_simp
  have null: "JNull \<in> set ?items"
    by simp
  note good = create_stores_parsed_questions [of ?rt "''test_1''" "''now''" "[]" "JStr ''N''"
      "JStr ''passage''" ?resp _ _ "JObj [(''questions'', JArr ?cands)]" ?cands]
  note bad = create_stores_parsed_questions [of ?rt "''test_1''" "''now''" "[]" "JStr ''N''"
      "JStr ''passage''" ?bad _ _ "JObj [(''questions'', JArr ?items)]" ?items]
  have "if JNull \<in> set ?cands
        then create_from_response ?rt ''test_1'' ''now'' [] (JStr ''N'') (JStr ''passage'') ?resp
               = (Inl (500, ''Could not create test''), [])
        else (\<exists>meta t'.
                create_from_response ?rt ''test_1'' ''now'' [] (JStr ''N'') (JStr ''passage'') ?resp
                  = (Inr meta, [] @ [t']) \<and>
                meta_id meta = ''test_1'' \<and> questionCount meta = length ?cands \<and>
                test_id t' = ''test_1'' \<and> results t' = [] \<and>
                length (question_list t') = length ?cands)"
    by (rule mp [OF conjunct2 [OF good]]) (intro conjI parsed arr)
  with nonnull have stored: "\<exists>meta t'.
      create_from_response ?rt ''test_1'' ''now'' [] (JStr ''N'') (JStr ''passage'') ?resp
        = (Inr meta, [t']) \<and>
      meta_id meta = ''test_1'' \<and> questionCount meta = 1 \<and>
      test_id t' = ''test_1'' \<and> results t' = [] \<and> length (question_list t') = 1"
    by simp
  have "if JNull \<in> set ?items
        then create_from_response ?rt ''test_1'' ''now'' [] (JStr ''N'') (JStr ''passage'') ?bad
               = (Inl (500, ''Could not create test''), [])
        else (\<exists>meta t'.
                create_from_response ?rt ''test_1'' ''now'' [] (JStr ''N'') (JStr ''passage'') ?bad
                  = (Inr meta, [] @ [t']) \<and>
                meta_id meta = ''test_1'' \<and> questionCount meta = length ?items \<and>
                test_id t' = ''test_1'' \<and> results t' = [] \<and>
                length (question_list t') = length ?items)"
    by (rule mp [OF conjunct2 [OF bad]]) (intro conjI parsed_bad arr_bad)
  with null have failed: "create_from_response ?rt ''test_1'' ''now'' [] (JStr ''N'') (JStr ''passage'') ?bad
               = (Inl (500, ''Could not create test''), [])"
    by simp
  from stored failed show ?thesis ..
qed

subsection \<open>Justifications\<close>

lemma includes_json_stale:
  "\<not> same_value_zero v stale \<Longrightarrow> includes_json (xs @ stale # ys) v = includes_json (xs @ ys) v"
  by (auto simp: includes_json_def list_ex_iff)

lemma select_questions_stale:
  "\<forall>q \<in> set qs. \<not> same_value_zero (field q ''id'') stale \<Longrightarrow>
   select_questions (xs @ stale # ys) qs = select_questions (xs @ ys) qs"
  by (induction qs) (auto simp: includes_json_stale split: option.splits)

lemma select_questions_filter:
  "\<forall>q \<in> set qs. q \<noteq> JNull \<Longrightarrow>
   select_questions qIds qs = Some (filter (\<lambda>q. includes_json qIds (field q ''id'')) qs)"
  by (induction qs) simp_all

lemma justify_handler_select:
  assumes "l \<noteq> []" and "l' \<noteq> []"
      and "\<And>t qs. find (\<lambda>t. test_id t = tid) tests = Some t \<Longrightarrow> questions t = JArr qs \<Longrightarrow>
             select_questions l qs = select_questions l' qs"
  shows "justify_handler rt tests tid (JObj ((''qIds'', JArr l) # rest)) =
         justify_handler rt tests tid (JObj ((''qIds'', JArr l') # rest))"
proof -
  obtain a as where l: "l = a # as" using assms(1) by (cases l) auto
  obtain b bs where l': "l' = b # bs" using assms(2) by (cases l') auto
  show ?thesis
  proof (cases "find (\<lambda>t. test_id t = tid) tests")
    case None
    then show ?thesis
      by (simp add: justify_handler_def body_or_empty_def field_def with_default_def l l')
  next
    case (Some t)
    show ?thesis
    proof (cases "questions t")
      case (JArr qs)
      from assms(3) [OF Some JArr] have "select_questions (a # as) qs = select_questions (b # bs) qs"
        by (simp add: l l')
      with Some JArr show ?thesis
        by (simp add: justify_handler_def body_or_empty_def field_def with_default_def l l'
              split: option.splits)
    qed (simp_all add: Some justify_handler_def body_or_empty_def field_def with_default_def l l')
  qed
qed

lemma justify_from_response_status:
  "justify_from_response rt modelResp = Inl (code, msg) \<Longrightarrow> code = 500"
  by (auto simp: justify_from_response_def Let_def split: option.splits json.splits if_splits)

lemma justify_handler_status:
  assumes "l \<noteq> []" and "find (\<lambda>t. test_id t = tid) tests = Some t"
      and "justify_handler rt tests tid (JObj ((''qIds'', JArr l) # rest)) = Inl (code, msg)"
  shows "code = 500"
proof -
  obtain a as where l: "l = a # as" using assms(1) by (cases l) auto
  show ?thesis
    using assms(2,3) justify_from_response_status [of rt _ code msg]
    by (auto simp: justify_handler_def body_or_empty_def field_def with_default_def l
          split: option.splits json.splits)
qed

lemma justify_handler_asks:
  assumes "l \<noteq> []" and "find (\<lambda>t. test_id t = tid) tests = Some t"
      and "questions t = JArr qs" and "select_questions l qs = Some sel"
      and "justify_prompt rt (with_default (map_of rest ''contextNotes'') (JStr [])) sel = Some p"
      and "call_gemini rt p 800 = Some modelResp"
  shows "justify_handler rt tests tid (JObj ((''qIds'', JArr l) # rest)) =
         justify_from_response rt modelResp"
proof -
  obtain a as where l: "l = a # as" using assms(1) by (cases l) auto
  show ?thesis
    using assms(2-) by (simp add: justify_handler_def body_or_empty_def field_def with_default_def l)
qed

lemma justify_from_response_unfiltered:
  assumes "safelyParseJsonFromText rt
             (js_or (candidate_text modelResp)
                (js_or (output_text modelResp) (Some (JStr (json_stringify rt modelResp)))))
             = Some parsed"
      and "field parsed ''justifications'' = Some (JArr js)"
  shows "justify_from_response rt modelResp = Inr js"
proof -
  from assms(2) have "truthy (Some parsed)"
    by (cases parsed) (simp_all add: field_def)
  with assms show ?thesis
    by (simp add: justify_from_response_def Let_def)
qed

text \<open>
  C7, as the specification states it, fails in its second half: the handler returns the
  \<^verbatim>\<open>justifications\<close> array of the generator's response as it is. Here the request names the
  question \<open>q1\<close> and an id the test does not have, the generator answers with a justification
  for \<open>zz\<close>, which is no question of the test, and that entry is returned.
\<close>

theorem unrequested_justification_returned:
  "justify_handler
       (ex_runtime (ex_response (ex_fenced ''{\"justifications\": [{\"qId\": \"zz\", \"explanation\": \"E\"}]}'')))
       [ex_test [ex_question ''q1'' 1]] ''t1''
       (JObj [(''qIds'', JArr [JStr ''q1'', JStr ''gone''])])
     = Inr [JObj [(''qId'', JStr ''zz''), (''explanation'', JStr ''E'')]]"
  by code_simp

text \<open>
  C7, amended. Take a request with a non-empty \<open>qIds\<close> array against an existing test, and one of
  its \<open>qIds\<close> that is the id of no question of the test. That \<open>qId\<close> is dropped without an error:
  the selection of questions for the generator is the same as without it, and the request is
  not answered 400 "qIds required"; if other \<open>qIds\<close> remain, the handler gives the same
  response as for the request without it (the generator answering the same prompt in the same
  way). For a test whose stored questions hold no \<^verbatim>\<open>null\<close>, as the create handler stores them,
  the questions selected are those of the test whose id is among the other \<open>qIds\<close>, and when
  the generator answers the prompt built from them, the handler's response is made from that
  answer. This also holds when the unmatched \<open>qId\<close> is the only one: the generator is then
  asked about no question, whereas the request with the empty array is answered 400. The
  justifications returned are not limited to the questions of the test: whenever the
  generator's answer parses to a value with a \<^verbatim>\<open>justifications\<close> array, the response is that
  array, whatever its entries are.
\<close>

theorem stale_qids_dropped:
  assumes "find (\<lambda>t. test_id t = tid) tests = Some t"
      and "\<forall>q \<in> set (question_list t). \<not> same_value_zero (field q ''id'') stale"
  shows "select_questions (xs @ stale # ys) (question_list t) =
           select_questions (xs @ ys) (question_list t) \<and>
         (JNull \<notin> set (question_list t) \<longrightarrow>
            select_questions (xs @ stale # ys) (question_list t) =
              Some (filter (\<lambda>q. includes_json (xs @ ys) (field q ''id'')) (question_list t))) \<and>
         (xs @ ys \<noteq> [] \<longrightarrow>
            justify_handler rt tests tid (JObj ((''qIds'', JArr (xs @ stale # ys)) # rest)) =
            justify_handler rt tests tid (JObj ((''qIds'', JArr (xs @ ys)) # rest))) \<and>
         justify_handler rt tests tid (JObj ((''qIds'', JArr (xs @ stale # ys)) # rest))
           \<noteq> Inl (400, ''qIds required'') \<and>
         justify_handler rt tests tid (JObj ((''qIds'', JArr []) # rest))
           = Inl (400, ''qIds required'') \<and>
         (questions t = JArr qs \<and> JNull \<notin> set qs \<and>
          justify_prompt rt (with_default (map_of rest ''contextNotes'') (JStr []))
            (filter (\<lambda>q. includes_json (xs @ ys) (field q ''id'')) qs) = Some p \<and>
          call_gemini rt p 800 = Some modelResp \<longrightarrow>
            justify_handler rt tests tid (JObj ((''qIds'', JArr (xs @ stale # ys)) # rest)) =
            justify_from_response rt modelResp) \<and>
         (safelyParseJsonFromText rt
            (js_or (candidate_text modelResp)
               (js_or (output_text modelResp) (Some (JStr (json_stringify rt modelResp)))))
            = Some parsed \<and>
          field parsed ''justifications'' = Some (JArr js) \<longrightarrow>
            justify_from_response rt modelResp = Inr js)"
proof (intro conjI impI)
  show same: "select_questions (xs @ stale # ys) (question_list t) =
           select_questions (xs @ ys) (question_list t)"
    using assms(2) by (rule select_questions_stale)
  show "select_questions (xs @ stale # ys) (question_list t) =
              Some (filter (\<lambda>q. includes_json (xs @ ys) (field q ''id'')) (question_list t))"
    if "JNull \<notin> set (question_list t)"
  proof -
    from that have "\<forall>q \<in> set (question_list t). q \<noteq> JNull" by auto
    then have "select_questions (xs @ ys) (question_list t) =
          Some (filter (\<lambda>q. includes_json (xs @ ys) (field q ''id'')) (question_list t))"
      by (rule select_questions_filter)
    with same show ?thesis by simp
  qed
  show "justify_handler rt tests tid (JObj ((''qIds'', JArr (xs @ stale # ys)) # rest)) =
            justify_handler rt tests tid (JObj ((''qIds'', JArr (xs @ ys)) # rest))"
    if "xs @ ys \<noteq> []"
  proof (rule justify_handler_select)
    fix t' qs
    assume "find (\<lambda>t. test_id t = tid) tests = Some t'" and q: "questions t' = JArr qs"
    with assms(1) have "t' = t" by simp
    with q assms(2) have "\<forall>q \<in> set qs. \<not> same_value_zero (field q ''id'') stale"
      by (simp add: question_list_def)
    then show "select_questions (xs @ stale # ys) qs = select_questions (xs @ ys) qs"
      by (rule select_questions_stale)
  qed (use that in simp_all)
  show "justify_handler rt tests tid (JObj ((''qIds'', JArr (xs @ stale # ys)) # rest))
           \<noteq> Inl (400, ''qIds required'')"
  proof
    assume "justify_handler rt tests tid (JObj ((''qIds'', JArr (xs @ stale # ys)) # rest))
              = Inl (400, ''qIds required'')"
    with assms(1) have "(400 :: nat) = 500"
      by (intro justify_handler_status [of "xs @ stale # ys"]) simp_all
    then show False by simp
  qed
  show "justify_handler rt tests tid (JObj ((''qIds'', JArr []) # rest))
           = Inl (400, ''qIds required'')"
    by (simp add: justify_handler_def body_or_empty_def field_def with_default_def)
  show "justify_handler rt tests tid (JObj ((''qIds'', JArr (xs @ stale # ys)) # rest)) =
            justify_from_response rt modelResp"
    if a: "questions t = JArr qs \<and> JNull \<notin> set qs \<and>
          justify_prompt rt (with_default (map_of rest ''contextNotes'') (JStr []))
            (filter (\<lambda>q. includes_json (xs @ ys) (field q ''id'')) qs) = Some p \<and>
          call_gemini rt p 800 = Some modelResp"
  proof -
    from a have ql: "question_list t = qs"
      by (simp add: question_list_def)
    from a have "\<forall>q \<in> set qs. q \<noteq> JNull" by auto
    then have "select_questions (xs @ ys) qs =
          Some (filter (\<lambda>q. includes_json (xs @ ys) (field q ''id'')) qs)"
      by (rule select_questions_filter)
    with same ql have sel: "select_questions (xs @ stale # ys) qs =
          Some (filter (\<lambda>q. includes_json (xs @ ys) (field q ''id'')) qs)"
      by simp
    from a have q: "questions t = JArr qs"
      and p: "justify_prompt rt (with_default (map_of rest ''contextNotes'') (JStr []))
            (filter (\<lambda>q. includes_json (xs @ ys) (field q ''id'')) qs) = Some p"
      and c: "call_gemini rt p 800 = Some modelResp"
      by blast+
    have "xs @ stale # ys \<noteq> []" by simp
    then show ?thesis
      using assms(1) q sel p c by (rule justify_handler_asks)
  qed
  show "justify_from_response rt modelResp = Inr js"
    if "safelyParseJsonFromText rt
            (js_or (candidate_text modelResp)
               (js_or (output_text modelResp) (Some (JStr (json_stringify rt modelResp)))))
            = Some parsed \<and>
          field parsed ''justifications'' = Some (JArr js)"
    using that by (intro justify_from_response_unfiltered [of rt modelResp parsed js]) simp_all
qed

theorem stale_qids_dropped_witness:
  "justify_handler
       (ex_runtime (ex_response (ex_fenced ''{\"justifications\": [{\"qId\": \"zz\", \"explanation\": \"E\"}]}'')))
       [ex_test [ex_question ''q1'' 1]] ''t1''
       (JObj [(''qIds'', JArr [JStr ''gone''])])
     = Inr [JObj [(''qId'', JStr ''zz''), (''explanation'', JStr ''E'')]] \<and>
   justify_handler
       (ex_runtime (ex_response (ex_fenced ''{\"justifications\": [{\"qId\": \"zz\", \"explanation\": \"E\"}]}'')))
       [ex_test [ex_question ''q1'' 1]] ''t1''
       (JObj [(''qIds'', JArr [])])
     = Inl (400, ''qIds required'') \<and>
   justify_handler
       (ex_runtime (ex_response (ex_fenced ''{\"justifications\": [{\"qId\": \"q1\", \"explanation\": \"E\"}]}'')))
       [ex_test [ex_question ''q1'' 1, ex_question ''q2'' 0]] ''t1''
       (JObj [(''qIds'', JArr [JStr ''q1'', JStr ''gone''])])
     = Inr [JObj [(''qId'', JStr ''q1''), (''explanation'', JStr ''E'')]] \<and>
   select_questions [JStr ''q1'', JStr ''gone''] [ex_question ''q1'' 1, ex_question ''q2'' 0]
     = Some [ex_question ''q1'' 1]"
proof -
  let ?resp = "ex_response (ex_fenced ''{\"justifications\": [{\"qId\": \"zz\", \"explanation\": \"E\"}]}'')"
  let ?rt = "ex_runtime ?resp"
  let ?t = "ex_test [ex_question ''q1'' 1]"
  let ?js = "[JObj [(''qId'', JStr ''zz''), (''explanation'', JStr ''E'')]]"
  let ?p = "the (justify_prompt ?rt (with_default (map_of [] ''contextNotes'') (JStr []))
                   (filter (\<lambda>q. includes_json ([] @ []) (field q ''id'')) [ex_question ''q1'' 1]))"
  have found: "find (\<lambda>t. test_id t = ''t1'') [?t] = Some ?t"
    by (simp add: ex_test_def)
  have stale: "\<forall>q \<in> set (question_list ?t). \<not> same_value_zero (field q ''id'') (JStr ''gone'')"
    by code_simp
  have stored: "questions ?t = JArr [ex_question ''q1'' 1]"
    by (simp add: ex_test_def)
  have nonnull: "JNull \<notin> set [ex_question ''q1'' 1]"
    by (simp add: ex_question_def)
  have asked: "justify_prompt ?rt (with_default (map_of [] ''contextNotes'') (JStr []))
                 (filter (\<lambda>q. includes_json ([] @ []) (field q ''id'')) [ex_question ''q1'' 1])
               = Some ?p"
    by code_simp
  have answered: "call_gemini ?rt ?p 800 = Some ?resp"
    by (simp add: ex_runtime_def)
  have parsed: "safelyParseJsonFromText ?rt
            (js_or (candidate_text ?resp)
               (js_or (output_text ?resp) (Some (JStr (json_stringify ?rt ?resp)))))
            = Some (JObj [(''justifications'', JArr ?js)])"
    by code_simp
  have arr: "field (JObj [(''justifications'', JArr ?js)]) ''justifications'' = Some (JArr ?js)"
    by code_simp
  note sole = stale_qids_dropped [OF found stale, of "[]" "[]" ?rt "[]" "[ex_question ''q1'' 1]"
      ?p ?resp "JObj [(''justifications'', JArr ?js)]" ?js]
  have "justify_handler ?rt [?t] ''t1'' (JObj ((''qIds'', JArr ([] @ JStr ''gone'' # [])) # []))
          = justify_from_response ?rt ?resp"
    by (rule mp [OF conjunct1 [OF conjunct2 [OF conjunct2 [OF conjunct2 [OF conjunct2 [OF conjunct2 [OF sole]]]]]]])
       (intro conjI stored nonnull asked answered)
  moreover have "justify_from_response ?rt ?resp = Inr ?js"
    by (rule mp [OF conjunct2 [OF conjunct2 [OF conjunct2 [OF conjunct2 [OF conjunct2 [OF conjunct2 [OF sole]]]]]]])
       (intro conjI parsed arr)
  ultimately have first: "justify_handler ?rt [?t] ''t1'' (JObj [(''qIds'', JArr [JStr ''gone''])])
          = Inr ?js"
    by simp
  have second: "justify_handler ?rt [?t] ''t1'' (JObj [(''qIds'', JArr [])])
          = Inl (400, ''qIds required'')"
    by (rule conjunct1 [OF conjunct2 [OF conjunct2 [OF conjunct2 [OF conjunct2 [OF sole]]]]])
  let ?rt2 = "ex_runtime (ex_response (ex_fenced ''{\"justifications\": [{\"qId\": \"q1\", \"explanation\": \"E\"}]}''))"
  let ?t2 = "ex_test [ex_question ''q1'' 1, ex_question ''q2'' 0]"
  have found2: "find (\<lambda>t. test_id t = ''t1'') [?t2] = Some ?t2"
    by (simp add: ex_test_def)
  have stale2: "\<forall>q \<in> set (question_list ?t2). \<not> same_value_zero (field q ''id'') (JStr ''gone'')"
    by code_simp
  have ql: "question_list ?t2 = [ex_question ''q1'' 1, ex_question ''q2'' 0]"
    by (simp add: question_list_def ex_test_def)
  have nonnull2: "JNull \<notin> set (question_list ?t2)"
    by (simp only: ql) (simp add: ex_question_def)
  have others: "[JStr ''q1''] @ [] \<noteq> []"
    by simp
  have without: "justify_handler ?rt2 [?t2] ''t1'' (JObj ((''qIds'', JArr ([JStr ''q1''] @ [])) # []))
                   = Inr [JObj [(''qId'', JStr ''q1''), (''explanation'', JStr ''E'')]]"
    by code_simp
  have sel: "filter (\<lambda>q. includes_json ([JStr ''q1''] @ []) (field q ''id'')) (question_list ?t2)
               = [ex_question ''q1'' 1]"
    by code_simp
  note two = stale_qids_dropped [OF found2 stale2, of "[JStr ''q1'']" "[]" ?rt2 "[]"]
  have "justify_handler ?rt2 [?t2] ''t1'' (JObj ((''qIds'', JArr ([JStr ''q1''] @ JStr ''gone'' # [])) # []))
          = justify_handler ?rt2 [?t2] ''t1'' (JObj ((''qIds'', JArr ([JStr ''q1''] @ [])) # []))"
    by (rule mp [OF conjunct1 [OF conjunct2 [OF conjunct2 [OF two]]] others])
  with without have third: "justify_handler ?rt2 [?t2] ''t1''
          (JObj [(''qIds'', JArr [JStr ''q1'', JStr ''gone''])])
          = Inr [JObj [(''qId'', JStr ''q1''), (''explanation'', JStr ''E'')]]"
    by simp
  have "select_questions ([JStr ''q1''] @ JStr ''gone'' # []) (question_list ?t2)
          = Some (filter (\<lambda>q. includes_json ([JStr ''q1''] @ []) (field q ''id'')) (question_list ?t2))"
    by (rule mp [OF conjunct1 [OF conjunct2 [OF two]] nonnull2])
  with sel ql have fourth: "select_questions [JStr ''q1'', JStr ''gone'']
          [ex_question ''q1'' 1, ex_question ''q2'' 0] = Some [ex_question ''q1'' 1]"
    by simp
  from first second third fourth show ?thesis
    by (intro conjI)
qed

end
